theory Spec2Isabelle
  imports Complex_Main
begin

section \<open>Python values and exceptions\<close>

text \<open>
  The development embeds parts of \<^verbatim>\<open>modeling_modular_bert.py\<close>: the attention
  constructors, the score stage of the attention forward passes and the weight transfer
  \<^verbatim>\<open>BertModelModular.load_model_from_source\<close>. An exception is a value of
  \<open>error\<close>; a function that can raise returns \<open>error + 'a\<close> with \<open>Inl\<close> the exception.
\<close>

datatype error =
    ValueError | AssertionError | IndexError | TypeError | ZeroDivisionError
  | AttributeError | NameError | UnboundLocalError | RuntimeError

text \<open>\<^verbatim>\<open>xs[i]\<close> for an index \<open>i \<ge> 0\<close>.\<close>

definition nth_err :: "'a list \<Rightarrow> nat \<Rightarrow> error + 'a" where
  "nth_err xs i = (if i < length xs then Inr (xs ! i) else Inl IndexError)"

text \<open>Sequencing of two computations that can raise.\<close>

definition then_do :: "error + 'a \<Rightarrow> ('a \<Rightarrow> error + 'b) \<Rightarrow> error + 'b" where
  "then_do x f = (case x of Inl e \<Rightarrow> Inl e | Inr v \<Rightarrow> f v)"

text \<open>\<^verbatim>\<open>s.split('_')\<close>: the fields between the underscores, at least one.\<close>

fun split_us :: "string \<Rightarrow> string list" where
  "split_us [] = [[]]"
| "split_us (c # cs) =
     (if c = CHR ''_'' then [] # split_us cs
      else (case split_us cs of [] \<Rightarrow> [[c]] | p # ps \<Rightarrow> (c # p) # ps))"

definition is_digit :: "char \<Rightarrow> bool" where
  "is_digit c = (c \<in> set ''0123456789'')"

text \<open>\<^verbatim>\<open>s.isnumeric()\<close> on an ASCII string: not empty, digits only.\<close>

definition isnumeric :: "string \<Rightarrow> bool" where
  "isnumeric s = (s \<noteq> [] \<and> list_all is_digit s)"

definition digit_val :: "char \<Rightarrow> int" where
  "digit_val c = int (of_char c) - 48"

definition digits_val :: "string \<Rightarrow> int" where
  "digits_val s = foldl (\<lambda>n c. 10 * n + digit_val c) 0 s"

text \<open>
  \<^verbatim>\<open>int(s)\<close> on a field of a head descriptor: an optional sign and decimal digits;
  anything else raises ValueError. (Descriptors are ASCII and, being fields of
  \<^verbatim>\<open>split('_')\<close>, hold no underscore; surrounding white space, which \<^verbatim>\<open>int\<close>
  would strip, is not part of the model.)
\<close>

definition py_int :: "string \<Rightarrow> error + int" where
  "py_int s =
     (case s of
        [] \<Rightarrow> Inl ValueError
      | c # cs \<Rightarrow>
          if c = CHR ''-'' then (if isnumeric cs then Inr (- digits_val cs) else Inl ValueError)
          else if c = CHR ''+'' then (if isnumeric cs then Inr (digits_val cs) else Inl ValueError)
          else if isnumeric s then Inr (digits_val s) else Inl ValueError)"

text \<open>
  A head descriptor of the heterogeneous mode is a string \<^verbatim>\<open>type_sim_size\<close>, for
  instance \<^verbatim>\<open>sa_wma_64\<close>, \<^verbatim>\<open>l_dct_64\<close> or \<^verbatim>\<open>c_5_64\<close>.
  \<open>head_field d k\<close> is \<^verbatim>\<open>d.split('_')[k]\<close> and \<open>head_size d\<close> is
  \<^verbatim>\<open>int(d.split('_')[2])\<close>.
\<close>

definition head_field :: "string \<Rightarrow> nat \<Rightarrow> error + string" where
  "head_field d k = nth_err (split_us d) k"

definition head_size :: "string \<Rightarrow> error + int" where
  "head_size d = then_do (head_field d 2) py_int"

text \<open>A list comprehension whose body can raise: the first exception wins.\<close>

fun map_err :: "('a \<Rightarrow> error + 'b) \<Rightarrow> 'a list \<Rightarrow> error + 'b list" where
  "map_err f [] = Inr []"
| "map_err f (x # xs) =
     then_do (f x) (\<lambda>y. then_do (map_err f xs) (\<lambda>ys. Inr (y # ys)))"

section \<open>Configuration\<close>

text \<open>
  An entry of \<^verbatim>\<open>config.attention_heads_list\<close> is the number of heads of the layer in
  the homogeneous mode and the list of its head descriptors in the heterogeneous mode; an
  entry of \<^verbatim>\<open>config.similarity_list\<close> is a name (\<^verbatim>\<open>sdp\<close>, \<^verbatim>\<open>wma\<close>,
  \<^verbatim>\<open>dft\<close>, \<^verbatim>\<open>dct\<close>) or the kernel size of a convolutional layer.
\<close>

datatype heads_entry = NumHeads int | HeadList "string list"

datatype sim_entry = SimName string | KernelSize int

record config =
  from_model_dict_hetero :: bool
  num_hidden_layers :: nat
  hidden_dim_list :: "int list"
  attention_heads_list :: "heads_entry list"
  attention_type :: "string list"
  similarity_list :: "sim_entry list"
  ff_dim_list :: "int list list"
  has_embedding_size :: bool

definition head_list :: "heads_entry \<Rightarrow> error + string list" where
  "head_list h = (case h of HeadList ds \<Rightarrow> Inr ds | NumHeads n \<Rightarrow> Inl TypeError)"


section \<open>Construction of the attention blocks\<close>

text \<open>
  What \<^verbatim>\<open>__init__\<close> computes before it allocates its sub-modules: the sizes of the
  block. The allocation itself (\<^verbatim>\<open>nn.Linear\<close>, \<^verbatim>\<open>nn.Embedding\<close>, ...) belongs
  to the tensor library and is not modelled.
\<close>

record attention_sizes =
  num_attention_heads :: int
  hidden_size :: int
  attention_head_size :: int
  all_head_size :: int





section \<open>Tensors of the forward pass\<close>

text \<open>
  A tensor is a nested list, outermost axis first. Its elements are taken from a
  semiring; the floating point arithmetic of the tensor library is not modelled.
\<close>

type_synonym 'a matrix = "'a list list"
type_synonym 'a tensor3 = "'a list list list"
type_synonym 'a tensor4 = "'a list list list list"

text \<open>Two blocks of rows can be joined along the row axis when all rows are as long.\<close>

definition rows_agree :: "'a matrix \<Rightarrow> 'a matrix \<Rightarrow> bool" where
  "rows_agree x y =
     (case x @ y of [] \<Rightarrow> True | r # rs \<Rightarrow> list_all (\<lambda>r'. length r' = length r) rs)"

text \<open>
  \<^verbatim>\<open>torch.cat([x, y], dim=2)\<close> on tensors \<^verbatim>\<open>[batch, heads, seq, head_dim]\<close>: the
  other axes must agree.
\<close>

definition cat_dim2 :: "'a tensor4 \<Rightarrow> 'a tensor4 \<Rightarrow> error + 'a tensor4" where
  "cat_dim2 x y =
     (if list_all2 (list_all2 rows_agree) x y then Inr (map2 (map2 (@)) x y)
      else Inl RuntimeError)"

text \<open>
  The choice of the key and value tensors, the first lines of each \<^verbatim>\<open>forward\<close>
  (the same text in \<^verbatim>\<open>BertSelfAttentionModular\<close>, \<^verbatim>\<open>BertHeteroAttentionModular\<close>
  and \<^verbatim>\<open>BertLinearAttentionModular\<close>). \<open>key\<close> and \<open>val\<close> stand for
  \<^verbatim>\<open>transpose_for_scores(self.key(.))\<close> and \<^verbatim>\<open>transpose_for_scores(self.value(.))\<close>.
\<close>

definition select_key_value ::
  "('h \<Rightarrow> 'a tensor4) \<Rightarrow> ('h \<Rightarrow> 'a tensor4) \<Rightarrow> 'h \<Rightarrow> 'h option \<Rightarrow>
   ('a tensor4 \<times> 'a tensor4) option \<Rightarrow> error + 'a tensor4 \<times> 'a tensor4" where
  "select_key_value key val hidden_states encoder_hidden_states past_key_value =
     (case encoder_hidden_states of
        Some enc \<Rightarrow>
          (case past_key_value of
             Some (pk, pv) \<Rightarrow> Inr (pk, pv)
           | None \<Rightarrow> Inr (key enc, val enc))
      | None \<Rightarrow>
          (case past_key_value of
             Some (pk, pv) \<Rightarrow>
               then_do (cat_dim2 pk (key hidden_states)) (\<lambda>key_layer.
               then_do (cat_dim2 pv (val hidden_states)) (\<lambda>value_layer.
               Inr (key_layer, value_layer)))
           | None \<Rightarrow> Inr (key hidden_states, val hidden_states)))"

text \<open>Matrix products: \<open>mat_mul_t q k\<close> is \<open>q k\<^sup>T\<close> and \<open>mat_mul q w\<close> is \<open>q w\<close>.
  The inner sizes must agree.\<close>

definition dot :: "'a::semiring_0 list \<Rightarrow> 'a list \<Rightarrow> 'a" where
  "dot u v = sum_list (map2 (*) u v)"

definition mat_mul_t :: "'a::semiring_0 matrix \<Rightarrow> 'a matrix \<Rightarrow> error + 'a matrix" where
  "mat_mul_t q k =
     (if rows_agree q k then Inr (map (\<lambda>qr. map (\<lambda>kr. dot qr kr) k) q)
      else Inl RuntimeError)"

definition mat_mul :: "'a::semiring_0 matrix \<Rightarrow> 'a matrix \<Rightarrow> error + 'a matrix" where
  "mat_mul q w =
     (if list_all (\<lambda>qr. length qr = length w) q \<and> rows_agree w []
      then Inr (map (\<lambda>qr. map (\<lambda>wc. dot qr wc) (transpose w)) q)
      else Inl RuntimeError)"

text \<open>\<^verbatim>\<open>x[:, head, :, :]\<close>.\<close>

definition select_head :: "'a tensor4 \<Rightarrow> nat \<Rightarrow> error + 'a tensor3" where
  "select_head x h = map_err (\<lambda>xb. nth_err xb h) x"

text \<open>\<^verbatim>\<open>torch.matmul(q, k.transpose(-1, -2))\<close> on \<^verbatim>\<open>[batch, seq, head_dim]\<close>
  tensors: one product per batch entry.\<close>

fun batch_mul_t :: "'a::semiring_0 tensor3 \<Rightarrow> 'a tensor3 \<Rightarrow> error + 'a tensor3" where
  "batch_mul_t [] [] = Inr []"
| "batch_mul_t (q # qs) (k # ks) =
     then_do (mat_mul_t q k) (\<lambda>s. then_do (batch_mul_t qs ks) (\<lambda>ss. Inr (s # ss)))"
| "batch_mul_t _ _ = Inl RuntimeError"

definition batch_mul :: "'a::semiring_0 tensor3 \<Rightarrow> 'a matrix \<Rightarrow> error + 'a tensor3" where
  "batch_mul q w = map_err (\<lambda>qb. mat_mul qb w) q"

section \<open>The score stage of the attention forward passes\<close>


record ('a, 'c) attention_outputs =
  key_layer :: "'a tensor4"
  value_layer :: "'a tensor4"
  attention_scores :: "'a tensor4"
  outputs :: 'c
  present_key_value :: "('a tensor4 \<times> 'a tensor4) option"





text \<open>
  \<^verbatim>\<open>BertHeteroAttentionModular\<close>: \<open>ha_W\<close> lists the bilinear matrices
  \<^verbatim>\<open>W0\<close>, \<^verbatim>\<open>W1\<close>, ... that \<^verbatim>\<open>getattr(self, f'W{wma_count}')\<close> reads.
\<close>

record ('h, 'a) hetero_attention =
  ha_query :: "'h \<Rightarrow> 'a tensor4"
  ha_key :: "'h \<Rightarrow> 'a tensor4"
  ha_value :: "'h \<Rightarrow> 'a tensor4"
  ha_is_decoder :: bool
  ha_num_attention_heads :: nat
  ha_attention_types :: "string list"
  ha_sim_types :: "string list"
  ha_W :: "'a matrix list"

text \<open>
  \<^verbatim>\<open>x.size()\<close> of a \<^verbatim>\<open>[batch, heads, seq, head_dim]\<close> tensor, read off the
  first entries (a nested list with an empty axis carries no sizes for the axes inside
  it; they read as 0).
\<close>

definition size0 :: "'a tensor4 \<Rightarrow> nat" where
  "size0 x = length x"

definition size2 :: "'a tensor4 \<Rightarrow> nat" where
  "size2 x = (case x of [] \<Rightarrow> 0 | xb # _ \<Rightarrow> (case xb of [] \<Rightarrow> 0 | xh # _ \<Rightarrow> length xh))"

text \<open>\<^verbatim>\<open>torch.zeros(b, l, r)\<close>.\<close>

definition zeros3 :: "nat \<Rightarrow> nat \<Rightarrow> nat \<Rightarrow> 'a::zero tensor3" where
  "zeros3 b l r = replicate b (replicate l (replicate r 0))"

text \<open>
  One round of the loop over the heads that fills \<^verbatim>\<open>attention_scores_list\<close>: what
  the head appends (nothing for a tag the loop has no branch for) and the next
  \<^verbatim>\<open>wma_count\<close>.
\<close>

definition head_scores ::
  "('h, 'a::semiring_0) hetero_attention \<Rightarrow> 'a tensor4 \<Rightarrow> 'a tensor4 \<Rightarrow> nat \<Rightarrow> nat \<Rightarrow>
   error + 'a tensor3 option \<times> nat" where
  "head_scores m query_layer kl attention_head wma_count =
     then_do (nth_err (ha_attention_types m) attention_head) (\<lambda>ty.
     if ty = ''sa'' then
       then_do (nth_err (ha_sim_types m) attention_head) (\<lambda>sim.
       if sim = ''sdp'' then
         then_do (select_head query_layer attention_head) (\<lambda>q.
         then_do (select_head kl attention_head) (\<lambda>k.
         then_do (batch_mul_t q k) (\<lambda>s. Inr (Some s, wma_count))))
       else if sim = ''wma'' then
         then_do (select_head query_layer attention_head) (\<lambda>q.
         then_do (if wma_count < length (ha_W m) then Inr (ha_W m ! wma_count)
                  else Inl AttributeError) (\<lambda>w.
         then_do (batch_mul q w) (\<lambda>qw.
         then_do (select_head kl attention_head) (\<lambda>k.
         then_do (batch_mul_t qw k) (\<lambda>s. Inr (Some s, wma_count + 1))))))
       else Inr (None, wma_count))
     else if ty = ''l'' then
       Inr (Some (zeros3 (size0 query_layer) (size2 query_layer) (size2 query_layer)), wma_count)
     else if ty = ''c'' then
       Inr (Some (zeros3 (size0 query_layer) (size2 query_layer) (size2 query_layer)), wma_count)
     else Inr (None, wma_count))"

fun scores_loop ::
  "('h, 'a::semiring_0) hetero_attention \<Rightarrow> 'a tensor4 \<Rightarrow> 'a tensor4 \<Rightarrow> nat list \<Rightarrow> nat \<Rightarrow>
   error + 'a tensor3 list" where
  "scores_loop m query_layer kl [] wma_count = Inr []"
| "scores_loop m query_layer kl (h # hs) wma_count =
     then_do (head_scores m query_layer kl h wma_count) (\<lambda>(entry, wma_count').
     then_do (scores_loop m query_layer kl hs wma_count') (\<lambda>entries.
     Inr (case entry of None \<Rightarrow> entries | Some s \<Rightarrow> s # entries)))"

text \<open>\<^verbatim>\<open>torch.stack(ts, 1)\<close> of \<^verbatim>\<open>[batch, seq, seq]\<close> tensors: the list is not
  empty and all its tensors have one shape.\<close>

definition same_shape3 :: "'a tensor3 \<Rightarrow> 'a tensor3 \<Rightarrow> bool" where
  "same_shape3 u t = list_all2 (list_all2 (\<lambda>x y. length x = length y)) u t"

definition stack_dim1 :: "'a tensor3 list \<Rightarrow> error + 'a tensor4" where
  "stack_dim1 ts =
     (case ts of
        [] \<Rightarrow> Inl RuntimeError
      | t # ts' \<Rightarrow>
          if list_all (\<lambda>u. same_shape3 u t) ts'
          then Inr (map (\<lambda>b. map (\<lambda>u. u ! b) ts) [0..<length t])
          else Inl RuntimeError)"

text \<open>\<^verbatim>\<open>BertHeteroAttentionModular.forward\<close>.\<close>

definition BertHeteroAttentionModular_forward ::
  "('h, 'a::semiring_0) hetero_attention \<Rightarrow>
   ('a tensor4 \<Rightarrow> 'a tensor4 \<Rightarrow> 'a tensor4 \<Rightarrow> 'a tensor4 \<Rightarrow> 'c) \<Rightarrow>
   'h \<Rightarrow> 'h option \<Rightarrow> ('a tensor4 \<times> 'a tensor4) option \<Rightarrow>
   error + ('a, 'c) attention_outputs" where
  "BertHeteroAttentionModular_forward m rest hidden_states encoder_hidden_states past_key_value =
     then_do (select_key_value (ha_key m) (ha_value m) hidden_states encoder_hidden_states
                past_key_value) (\<lambda>(kl, vl).
     let query_layer = ha_query m hidden_states in
       then_do (scores_loop m query_layer kl [0..<ha_num_attention_heads m] 0)
         (\<lambda>attention_scores_list.
       then_do (stack_dim1 attention_scores_list) (\<lambda>scores.
       Inr \<lparr>key_layer = kl, value_layer = vl, attention_scores = scores,
            outputs = rest query_layer kl vl scores,
            present_key_value = (if ha_is_decoder m then Some (kl, vl) else None)\<rparr>)))"

text \<open>A head whose tags one of the branches of the score loop handles.\<close>

definition known_head :: "('h, 'a) hetero_attention \<Rightarrow> nat \<Rightarrow> bool" where
  "known_head m h =
     (h < length (ha_attention_types m) \<and>
      (ha_attention_types m ! h = ''l'' \<or> ha_attention_types m ! h = ''c'' \<or>
       (ha_attention_types m ! h = ''sa'' \<and> h < length (ha_sim_types m) \<and>
        (ha_sim_types m ! h = ''sdp'' \<or> ha_sim_types m ! h = ''wma''))))"



section \<open>Parameter tensors\<close>

text \<open>
  The parameters that the weight transfer reads and writes are vectors (biases, layer
  norms), matrices (weights, embeddings) and \<open>3\<close>-axis tensors (convolution kernels);
  again nested lists, outermost axis first.
\<close>

datatype 'a tensor = T1 "'a list" | T2 "'a list list" | T3 "'a list list list"

text \<open>The slices of the source: \<^verbatim>\<open>:\<close>, \<^verbatim>\<open>:b\<close> and \<^verbatim>\<open>a:b\<close>, with Python's
  clamping of the bounds (a negative bound counts from the end).\<close>

datatype sl = All | Upto int | Range int int

definition py_index :: "nat \<Rightarrow> int \<Rightarrow> nat" where
  "py_index n k = (if k < 0 then nat (int n + k) else min n (nat k))"

text \<open>Where a slice of an axis of length \<open>n\<close> starts, and how many entries it has.\<close>

definition bounds :: "sl \<Rightarrow> nat \<Rightarrow> nat \<times> nat" where
  "bounds s n =
     (case s of
        All \<Rightarrow> (0, n)
      | Upto b \<Rightarrow> (0, py_index n b)
      | Range a b \<Rightarrow> (py_index n a, py_index n b - py_index n a))"

definition get_rows :: "sl \<Rightarrow> 'r list \<Rightarrow> 'r list" where
  "get_rows s xs = (case bounds s (length xs) of (a, n) \<Rightarrow> take n (drop a xs))"

text \<open>
  \<open>set_rows s f xs vs\<close> replaces the rows of \<open>xs\<close> in the slice \<open>s\<close>, each by \<open>f\<close> of the
  old row and the matching row of \<open>vs\<close>; there must be as many rows in \<open>vs\<close> as in the
  slice.
\<close>

definition set_rows :: "sl \<Rightarrow> ('r \<Rightarrow> 'v \<Rightarrow> 'r option) \<Rightarrow> 'r list \<Rightarrow> 'v list \<Rightarrow> 'r list option" where
  "set_rows s f xs vs =
     (case bounds s (length xs) of
        (a, n) \<Rightarrow>
          if length vs = n
          then map_option (\<lambda>new. take a xs @ new @ drop (a + n) xs)
                 (those (map2 f (take n (drop a xs)) vs))
          else None)"

definition put :: "'a \<Rightarrow> 'a \<Rightarrow> 'a option" where
  "put old new = Some new"

text \<open>\<^verbatim>\<open>t[s1, ..]\<close>: more slices than axes raise IndexError.\<close>

fun slice :: "sl list \<Rightarrow> 'a tensor \<Rightarrow> error + 'a tensor" where
  "slice [] t = Inr t"
| "slice [s] (T1 xs) = Inr (T1 (get_rows s xs))"
| "slice [s] (T2 xs) = Inr (T2 (get_rows s xs))"
| "slice [s, s'] (T2 xs) = Inr (T2 (map (get_rows s') (get_rows s xs)))"
| "slice [s] (T3 xs) = Inr (T3 (get_rows s xs))"
| "slice [s, s'] (T3 xs) = Inr (T3 (map (get_rows s') (get_rows s xs)))"
| "slice [s, s', s''] (T3 xs) = Inr (T3 (map (map (get_rows s'')) (map (get_rows s') (get_rows s xs))))"
| "slice _ _ = Inl IndexError"

definition pad_slices :: "nat \<Rightarrow> sl list \<Rightarrow> sl list" where
  "pad_slices k sls = sls @ replicate (k - length sls) All"

definition or_raise :: "error \<Rightarrow> 'b option \<Rightarrow> error + 'b" where
  "or_raise e x = (case x of None \<Rightarrow> Inl e | Some y \<Rightarrow> Inr y)"

text \<open>
  \<^verbatim>\<open>t[s1, ..] = v\<close>: the value is copied into the slice. The value must have the
  shape of the slice, otherwise RuntimeError (the tensor library would also broadcast
  axes of size one; that is not modelled).
\<close>

fun assign :: "sl list \<Rightarrow> 'a tensor \<Rightarrow> 'a tensor \<Rightarrow> error + 'a tensor" where
  "assign sls (T1 xs) (T1 vs) =
     (if 1 < length sls then Inl IndexError
      else or_raise RuntimeError
             (map_option T1 (set_rows (pad_slices 1 sls ! 0) put xs vs)))"
| "assign sls (T2 xs) (T2 vs) =
     (if 2 < length sls then Inl IndexError
      else or_raise RuntimeError
             (map_option T2
                (set_rows (pad_slices 2 sls ! 0) (set_rows (pad_slices 2 sls ! 1) put) xs vs)))"
| "assign sls (T3 xs) (T3 vs) =
     (if 3 < length sls then Inl IndexError
      else or_raise RuntimeError
             (map_option T3
                (set_rows (pad_slices 3 sls ! 0)
                   (set_rows (pad_slices 3 sls ! 1) (set_rows (pad_slices 3 sls ! 2) put))
                   xs vs)))"
| "assign sls t v = Inl RuntimeError"

text \<open>\<^verbatim>\<open>t.shape[k]\<close> (an empty axis hides the sizes of the axes inside it; they read
  as 0).\<close>

definition first_len :: "'r list list \<Rightarrow> nat" where
  "first_len xs = (case xs of [] \<Rightarrow> 0 | r # _ \<Rightarrow> length r)"

fun shape_at :: "'a tensor \<Rightarrow> nat \<Rightarrow> error + int" where
  "shape_at (T1 xs) k = (if k = 0 then Inr (int (length xs)) else Inl IndexError)"
| "shape_at (T2 xs) k =
     (if k = 0 then Inr (int (length xs)) else if k = 1 then Inr (int (first_len xs))
      else Inl IndexError)"
| "shape_at (T3 xs) k =
     (if k = 0 then Inr (int (length xs)) else if k = 1 then Inr (int (first_len xs))
      else if k = 2 then Inr (int (first_len (concat xs))) else Inl IndexError)"

fun same_shape :: "'a tensor \<Rightarrow> 'a tensor \<Rightarrow> bool" where
  "same_shape (T1 x) (T1 y) = (length x = length y)"
| "same_shape (T2 x) (T2 y) = list_all2 (\<lambda>a b. length a = length b) x y"
| "same_shape (T3 x) (T3 y) = list_all2 (list_all2 (\<lambda>a b. length a = length b)) x y"
| "same_shape _ _ = False"

text \<open>\<^verbatim>\<open>np.transpose\<close>: the axes in reverse order.\<close>

fun np_transpose :: "'a tensor \<Rightarrow> 'a tensor" where
  "np_transpose (T1 xs) = T1 xs"
| "np_transpose (T2 xs) = T2 (transpose xs)"
| "np_transpose (T3 xs) = T3 (map transpose (transpose (map transpose xs)))"

text \<open>
  \<^verbatim>\<open>torch.functional.F.interpolate(x, size)\<close> on a \<^verbatim>\<open>[n, c, l]\<close> tensor, in the
  default mode \<^verbatim>\<open>nearest\<close>: entry \<open>k\<close> of a resized row is entry \<open>k * l div size\<close> of
  the row; an empty row or a size that is not positive raises.
\<close>

definition resize_row :: "nat \<Rightarrow> 'a list \<Rightarrow> 'a list" where
  "resize_row n row = map (\<lambda>k. row ! (k * length row div n)) [0..<n]"

definition interpolate :: "'a tensor \<Rightarrow> int \<Rightarrow> error + 'a tensor" where
  "interpolate x n =
     (case x of
        T3 xs \<Rightarrow>
          if n \<le> 0 \<or> list_ex (list_ex (\<lambda>row. row = [])) xs then Inl RuntimeError
          else Inr (T3 (map (map (resize_row (nat n))) xs))
      | _ \<Rightarrow> Inl RuntimeError)"

section \<open>Models, the store and the transfer state\<close>

text \<open>
  Every parameter is an object of its own, and \<^verbatim>\<open>setattr\<close> can make two modules hold
  the same object. So a parameter is an address, the store maps the addresses to the
  tensors, and a module is its registry: the names of its state dict (parameters and
  buffers, also those of its sub-modules, with the dotted path) and the objects behind
  them. A layer of the encoder has the registries of its sub-modules \<^verbatim>\<open>attention\<close>
  (names \<^verbatim>\<open>self.query.weight\<close>, \<^verbatim>\<open>self.W0\<close>, \<^verbatim>\<open>output.dense.bias\<close>, ...),
  \<^verbatim>\<open>intermediate\<close>, \<^verbatim>\<open>output\<close> and, when the layer has one, \<^verbatim>\<open>crossattention\<close>.
\<close>

type_synonym addr = nat
type_synonym 'a store = "addr \<Rightarrow> 'a tensor option"
type_synonym module = "(string \<times> addr) list"

record layer =
  attention :: module
  intermediate :: module
  "output" :: module
  crossattention :: module

record model =
  model_config :: config
  embeddings :: module
  encoder :: "layer list"
  transfer_mode :: string

datatype part = Embeddings | Attention nat | Intermediate nat | Output nat

definition registry :: "model \<Rightarrow> part \<Rightarrow> error + module" where
  "registry m p =
     (case p of
        Embeddings \<Rightarrow> Inr (embeddings m)
      | Attention i \<Rightarrow> then_do (nth_err (encoder m) i) (\<lambda>l. Inr (attention l))
      | Intermediate i \<Rightarrow> then_do (nth_err (encoder m) i) (\<lambda>l. Inr (intermediate l))
      | Output i \<Rightarrow> then_do (nth_err (encoder m) i) (\<lambda>l. Inr (output l)))"

text \<open>Attribute access by name: \<^verbatim>\<open>module.a.b\<close> and \<^verbatim>\<open>getattr(module, name)\<close>.\<close>

definition getattr :: "module \<Rightarrow> string \<Rightarrow> error + addr" where
  "getattr reg name = or_raise AttributeError (map_of reg name)"

definition param_addr :: "model \<Rightarrow> part \<Rightarrow> string \<Rightarrow> error + addr" where
  "param_addr m p name = then_do (registry m p) (\<lambda>reg. getattr reg name)"

definition fetch :: "'a store \<Rightarrow> addr \<Rightarrow> error + 'a tensor" where
  "fetch s a = or_raise RuntimeError (s a)"

definition param :: "'a store \<Rightarrow> model \<Rightarrow> part \<Rightarrow> string \<Rightarrow> error + 'a tensor" where
  "param s m p name = then_do (param_addr m p name) (fetch s)"

text \<open>
  The sub-module at the dotted prefix \<open>pre\<close> of a registry (\<open>pre\<close> ends with a dot, or is
  empty for the module itself), with the names relative to it. All sub-modules that the
  transfer loads own a parameter, so a sub-module exists when this registry is not empty.
\<close>

definition submodule :: "module \<Rightarrow> string \<Rightarrow> module" where
  "submodule reg pre =
     map (\<lambda>(n, a). (drop (length pre) n, a)) (filter (\<lambda>(n, a). take (length pre) n = pre) reg)"

definition get_module :: "model \<Rightarrow> part \<Rightarrow> string \<Rightarrow> error + module" where
  "get_module m p pre =
     then_do (registry m p) (\<lambda>reg.
     if pre \<noteq> [] \<and> submodule reg pre = [] then Inl AttributeError
     else Inr (submodule reg pre))"

text \<open>\<^verbatim>\<open>module.state_dict()\<close>: the names with the tensors.\<close>

definition state_dict :: "'a store \<Rightarrow> model \<Rightarrow> part \<Rightarrow> string \<Rightarrow> error + (string \<times> 'a tensor) list" where
  "state_dict s m p pre =
     then_do (get_module m p pre) (\<lambda>reg.
     map_err (\<lambda>(n, a). then_do (fetch s a) (\<lambda>t. Inr (n, t))) reg)"

text \<open>
  The state of a transfer: the store, the target model \<^verbatim>\<open>self\<close> (its registries change
  under \<^verbatim>\<open>setattr\<close>), the variable \<^verbatim>\<open>count\<close> and the number of random projections
  fitted so far. The source model is never assigned to and is a parameter.
\<close>

record 'a state =
  store :: "'a store"
  self :: model
  count :: nat
  rp_calls :: nat

type_synonym 'a cmd = "'a state \<Rightarrow> error + 'a state"

definition skip :: "'a cmd" where
  "skip st = Inr st"

definition seq :: "'a cmd \<Rightarrow> 'a cmd \<Rightarrow> 'a cmd" where
  "seq c d st = then_do (c st) d"

fun block :: "'a cmd list \<Rightarrow> 'a cmd" where
  "block [] = skip"
| "block (c # cs) = seq c (block cs)"

definition with_val :: "error + 'v \<Rightarrow> ('v \<Rightarrow> 'a cmd) \<Rightarrow> 'a cmd" where
  "with_val x f st = then_do x (\<lambda>v. f v st)"

definition with_read :: "('a state \<Rightarrow> error + 'v) \<Rightarrow> ('v \<Rightarrow> 'a cmd) \<Rightarrow> 'a cmd" where
  "with_read r f st = then_do (r st) (\<lambda>v. f v st)"

definition raise :: "error \<Rightarrow> 'a cmd" where
  "raise e st = Inl e"

text \<open>
  \<^verbatim>\<open>self.<part>.<name>[slices] = value\<close>: the right-hand side is evaluated first,
  then the target parameter is looked up and the value copied into its slice.
\<close>

definition assign_to :: "part \<Rightarrow> string \<Rightarrow> sl list \<Rightarrow> ('a state \<Rightarrow> error + 'a tensor) \<Rightarrow> 'a cmd" where
  "assign_to p name sls value st =
     then_do (value st) (\<lambda>v.
     then_do (param_addr (self st) p name) (\<lambda>a.
     then_do (fetch (store st) a) (\<lambda>t.
     then_do (assign sls t v) (\<lambda>t'.
     Inr (st\<lparr>store := (store st)(a \<mapsto> t')\<rparr>)))))"

text \<open>\<^verbatim>\<open>source_model.<part>.<name>[slices]\<close>.\<close>

definition from_source :: "model \<Rightarrow> part \<Rightarrow> string \<Rightarrow> sl list \<Rightarrow> 'a state \<Rightarrow> error + 'a tensor" where
  "from_source source p name sls st = then_do (param (store st) source p name) (slice sls)"

text \<open>
  \<^verbatim>\<open>GaussianRandomProjection(n).fit_transform(x)\<close> draws a fresh random matrix at
  every call. The projections are a parameter \<open>rp\<close> of the transfer: \<open>rp k n x\<close> is the
  result of the \<open>k\<close>-th call, or the exception it raises.
  \<^verbatim>\<open>.cpu().numpy()\<close>, \<^verbatim>\<open>torch.from_numpy\<close> and \<^verbatim>\<open>nn.Parameter\<close> keep the
  entries of a tensor and are not visible in the model.
\<close>

type_synonym 'a projection = "nat \<Rightarrow> int \<Rightarrow> 'a tensor \<Rightarrow> error + 'a tensor"

definition projected ::
  "'a projection \<Rightarrow> int \<Rightarrow> ('a state \<Rightarrow> error + 'a tensor) \<Rightarrow> 'a state \<Rightarrow> error + 'a tensor" where
  "projected rp n value st = then_do (value st) (rp (rp_calls st) n)"

text \<open>\<^verbatim>\<open>np.transpose(rp.fit_transform(np.transpose(x)))\<close>.\<close>

definition projected_t ::
  "'a projection \<Rightarrow> int \<Rightarrow> ('a state \<Rightarrow> error + 'a tensor) \<Rightarrow> 'a state \<Rightarrow> error + 'a tensor" where
  "projected_t rp n value st =
     then_do (value st) (\<lambda>x.
     then_do (rp (rp_calls st) n (np_transpose x)) (\<lambda>y. Inr (np_transpose y)))"

definition fitted :: "'a cmd" where
  "fitted st = Inr (st\<lparr>rp_calls := rp_calls st + 1\<rparr>)"

text \<open>An assignment whose right-hand side fits one projection.\<close>

definition assign_rp :: "part \<Rightarrow> string \<Rightarrow> sl list \<Rightarrow> ('a state \<Rightarrow> error + 'a tensor) \<Rightarrow> 'a cmd" where
  "assign_rp p name sls value = seq (assign_to p name sls value) fitted"

text \<open>
  \<^verbatim>\<open>self.<part>.<pre>.load_state_dict(source_model.<part>.<pre>.state_dict())\<close>, in
  the default strict mode: the target module is looked up, the state dict of the source
  module is read, and then each tensor of the target is overwritten with the tensor of
  that name. Names missing on either side and tensors of different shapes raise
  RuntimeError.
\<close>

definition load_entry :: "'a store \<Rightarrow> (string \<times> 'a tensor) list \<Rightarrow> string \<times> addr \<Rightarrow> error + addr \<times> 'a tensor" where
  "load_entry s sd e =
     (case e of (n, a) \<Rightarrow>
        then_do (fetch s a) (\<lambda>t.
        case map_of sd n of
          None \<Rightarrow> Inl RuntimeError
        | Some v \<Rightarrow> if same_shape t v then Inr (a, v) else Inl RuntimeError))"

definition write_all :: "(addr \<times> 'a tensor) list \<Rightarrow> 'a store \<Rightarrow> 'a store" where
  "write_all ws s = fold (\<lambda>(a, v) s'. s'(a \<mapsto> v)) ws s"

definition load_state_dict :: "model \<Rightarrow> part \<Rightarrow> string \<Rightarrow> 'a cmd" where
  "load_state_dict source p pre st =
     then_do (get_module (self st) p pre) (\<lambda>own.
     then_do (state_dict (store st) source p pre) (\<lambda>sd.
     if \<not> list_all (\<lambda>n. n \<in> set (map fst own)) (map fst sd) then Inl RuntimeError
     else
       then_do (map_err (load_entry (store st) sd) own) (\<lambda>ws.
       Inr (st\<lparr>store := write_all ws (store st)\<rparr>))))"

text \<open>\<^verbatim>\<open>count += len(source_model.<part>.<pre>.state_dict())\<close>.\<close>

definition count_state_dict :: "model \<Rightarrow> part \<Rightarrow> string \<Rightarrow> 'a cmd" where
  "count_state_dict source p pre st =
     then_do (state_dict (store st) source p pre) (\<lambda>sd.
     Inr (st\<lparr>count := count st + length sd\<rparr>))"

text \<open>
  \<^verbatim>\<open>setattr(self.encoder.layer[i].attention.self, name, obj)\<close>: the name is bound to
  the object itself, in place when the module has the name already.
\<close>

fun set_entry :: "string \<Rightarrow> addr \<Rightarrow> module \<Rightarrow> module" where
  "set_entry name a [] = [(name, a)]"
| "set_entry name a ((n, b) # reg) =
     (if n = name then (n, a) # reg else (n, b) # set_entry name a reg)"

definition setattr :: "nat \<Rightarrow> string \<Rightarrow> addr \<Rightarrow> 'a cmd" where
  "setattr i name a st =
     then_do (nth_err (encoder (self st)) i) (\<lambda>l.
     Inr (st\<lparr>self := (self st)\<lparr>encoder :=
            (encoder (self st))[i := l\<lparr>attention := set_entry name a (attention l)\<rparr>]\<rparr>\<rparr>))"

text \<open>\<^verbatim>\<open>str(n)\<close> for the names \<^verbatim>\<open>f'W{wma_count}'\<close>.\<close>

fun str_nat :: "nat \<Rightarrow> string" where
  "str_nat n =
     (if n < 10 then [char_of (48 + n)]
      else str_nat (n div 10) @ [char_of (48 + n mod 10)])"

declare str_nat.simps [simp del]

section \<open>The weight transfer \<^verbatim>\<open>load_model_from_source\<close>\<close>

text \<open>The embeddings (lines 1608 to 1636 of the source).\<close>

definition load_embeddings :: "'a projection \<Rightarrow> model \<Rightarrow> config \<Rightarrow> config \<Rightarrow> string \<Rightarrow> 'a cmd" where
  "load_embeddings rp source tc sc mode =
     with_val (nth_err (hidden_dim_list tc) 0) (\<lambda>hidden.
     with_val (nth_err (hidden_dim_list sc) 0) (\<lambda>source_hidden.
     if hidden = source_hidden then
       block [load_state_dict source Embeddings [], count_state_dict source Embeddings []]
     else
       (let lower_hidden_size = min hidden source_hidden in
        block [
          assign_to Embeddings ''LayerNorm.weight'' [Upto lower_hidden_size]
            (from_source source Embeddings ''LayerNorm.weight'' [Upto lower_hidden_size]),
          assign_to Embeddings ''LayerNorm.bias'' [Upto lower_hidden_size]
            (from_source source Embeddings ''LayerNorm.bias'' [Upto lower_hidden_size]),
          if mode = ''OD'' then
            block [
              assign_to Embeddings ''word_embeddings.weight'' [All, Upto lower_hidden_size]
                (from_source source Embeddings ''word_embeddings.weight''
                   [All, Upto lower_hidden_size]),
              assign_to Embeddings ''position_embeddings.weight'' [All, Upto lower_hidden_size]
                (from_source source Embeddings ''position_embeddings.weight''
                   [All, Upto lower_hidden_size]),
              assign_to Embeddings ''token_type_embeddings.weight'' [All, Upto lower_hidden_size]
                (from_source source Embeddings ''token_type_embeddings.weight''
                   [All, Upto lower_hidden_size])]
          else
            block [
              assign_rp Embeddings ''word_embeddings.weight'' [All, Upto lower_hidden_size]
                (projected rp lower_hidden_size
                   (from_source source Embeddings ''word_embeddings.weight''
                      [All, Upto lower_hidden_size])),
              assign_rp Embeddings ''position_embeddings.weight'' [All, Upto lower_hidden_size]
                (projected rp lower_hidden_size
                   (from_source source Embeddings ''position_embeddings.weight''
                      [All, Upto lower_hidden_size])),
              assign_rp Embeddings ''token_type_embeddings.weight'' [All, Upto lower_hidden_size]
                (projected rp lower_hidden_size
                   (from_source source Embeddings ''token_type_embeddings.weight''
                      [All, Upto lower_hidden_size]))]])))"

text \<open>
  The variables of one round of the loop over the layers of the heterogeneous mode, under
  the names of the source (\<open>lv_source_head_size\<close> is
  \<^verbatim>\<open>int(source_config.attention_heads_list[i][0].split('_')[2])\<close>).
\<close>

record layer_vars =
  lv_i :: nat
  lv_mode :: string
  lv_debug :: bool
  lv_attention_head_size :: int
  lv_source_head_size :: int
  lv_lower_attention_head_size :: int
  lv_hidden :: int
  lv_source_hidden :: int
  lv_lower_hidden_size :: int
  lv_curr_attn_types :: "string list"
  lv_source_attn_types :: "string list"
  lv_curr_sim_types :: "string list"
  lv_source_sim_types :: "string list"
  lv_curr_all_head_size :: int
  lv_source_all_head_size :: int

text \<open>The relative-position distance embedding (lines 1659 to 1675).\<close>

definition transfer_distance_embedding ::
  "'a projection \<Rightarrow> model \<Rightarrow> string \<Rightarrow> nat \<Rightarrow> int \<Rightarrow> int \<Rightarrow> 'a cmd" where
  "transfer_distance_embedding rp source mode i ahs source_ahs =
     (let lower_attention_head_size = min ahs source_ahs in
      if ahs = source_ahs then
        load_state_dict source (Attention i) ''self.distance_embedding.''
      else if mode = ''OD'' then
        assign_to (Attention i) ''self.distance_embedding.weight''
          [All, Upto lower_attention_head_size]
          (from_source source (Attention i) ''self.distance_embedding.weight''
             [All, Upto lower_attention_head_size])
      else
        assign_rp (Attention i) ''self.distance_embedding.weight''
          [All, Upto lower_attention_head_size]
          (projected rp lower_attention_head_size
             (from_source source (Attention i) ''self.distance_embedding.weight'' [])))"

text \<open>The rows \<^verbatim>\<open>j*attention_head_size:(j+1)*attention_head_size\<close> of head \<open>j\<close>.\<close>

definition head_rows :: "layer_vars \<Rightarrow> nat \<Rightarrow> sl" where
  "head_rows v j =
     Range (int j * lv_attention_head_size v) ((int j + 1) * lv_attention_head_size v)"

text \<open>
  The query, key and value slices of head \<open>j\<close> (lines 1693 to 1724). In the source these
  assignments stand in the body of \<^verbatim>\<open>if debug:\<close>, after the \<^verbatim>\<open>print\<close>.
\<close>

definition transfer_qkv :: "'a projection \<Rightarrow> model \<Rightarrow> layer_vars \<Rightarrow> nat \<Rightarrow> 'a cmd" where
  "transfer_qkv rp source v j =
     (let p = Attention (lv_i v); rows = head_rows v j; cols = Upto (lv_lower_hidden_size v) in
      block [
        assign_to p ''self.query.bias'' [rows] (from_source source p ''self.query.bias'' [rows]),
        assign_to p ''self.key.bias'' [rows] (from_source source p ''self.key.bias'' [rows]),
        assign_to p ''self.value.bias'' [rows] (from_source source p ''self.value.bias'' [rows]),
        if lv_hidden v \<noteq> lv_source_hidden v then
          (if lv_mode v = ''OD'' then
             block [
               assign_to p ''self.query.weight'' [rows, cols]
                 (from_source source p ''self.query.weight'' [rows, cols]),
               assign_to p ''self.key.weight'' [rows, cols]
                 (from_source source p ''self.key.weight'' [rows, cols]),
               assign_to p ''self.value.weight'' [rows, cols]
                 (from_source source p ''self.value.weight'' [rows, cols])]
           else
             block [
               assign_rp p ''self.query.weight'' [rows, cols]
                 (projected rp (lv_lower_hidden_size v)
                    (from_source source p ''self.query.weight'' [rows, cols])),
               assign_rp p ''self.key.weight'' [rows, cols]
                 (projected rp (lv_lower_hidden_size v)
                    (from_source source p ''self.key.weight'' [rows, cols])),
               assign_rp p ''self.value.weight'' [rows, cols]
                 (projected rp (lv_lower_hidden_size v)
                    (from_source source p ''self.value.weight'' [rows, cols]))])
        else
          block [
            assign_to p ''self.query.weight'' [rows, All]
              (from_source source p ''self.query.weight'' [rows, All]),
            assign_to p ''self.key.weight'' [rows, All]
              (from_source source p ''self.key.weight'' [rows, All]),
            assign_to p ''self.value.weight'' [rows, All]
              (from_source source p ''self.value.weight'' [rows, All])]])"

text \<open>
  The bilinear matrix of a head (lines 1727 to 1739). With equal head sizes the target
  attribute is bound to the parameter object of the source. Otherwise the ordered mode
  reads the name \<^verbatim>\<open>source\<close>, which nothing defines, and the projection mode calls
  \<^verbatim>\<open>torch.from_nump\<close>, which the library does not have, after its two projections.
\<close>

definition transfer_wma :: "'a projection \<Rightarrow> model \<Rightarrow> layer_vars \<Rightarrow> nat \<Rightarrow> 'a cmd" where
  "transfer_wma rp source v wma_count st =
     (let name = ''self.W'' @ str_nat wma_count in
      if lv_attention_head_size v = lv_source_head_size v then
        then_do (registry (self st) (Attention (lv_i v))) (\<lambda>_.
        then_do (param_addr source (Attention (lv_i v)) name) (\<lambda>a.
        setattr (lv_i v) name a st))
      else
        then_do (param_addr (self st) (Attention (lv_i v)) name) (\<lambda>curr_w.
        then_do (param_addr source (Attention (lv_i v)) name) (\<lambda>source_w.
        if lv_mode v = ''OD'' then Inl NameError
        else
          then_do (fetch (store st) source_w) (\<lambda>w.
          then_do (rp (rp_calls st) (lv_lower_attention_head_size v) w) (\<lambda>w'.
          then_do (rp (rp_calls st + 1) (lv_lower_attention_head_size v) (np_transpose w'))
            (\<lambda>w''. Inl AttributeError))))))"

text \<open>\<^verbatim>\<open>getattr(module, name)\<close> for a sub-module: it must exist.\<close>

definition need_module :: "model \<Rightarrow> part \<Rightarrow> string \<Rightarrow> 'a cmd" where
  "need_module m p pre st = then_do (get_module m p pre) (\<lambda>_. Inr st)"

definition need_own_module :: "part \<Rightarrow> string \<Rightarrow> 'a cmd" where
  "need_own_module p pre st = then_do (get_module (self st) p pre) (\<lambda>_. Inr st)"

text \<open>
  The convolutional sub-modules of a head (lines 1742 to 1772); \<^verbatim>\<open>unfold\<close> has no
  state. The transfer mode is not consulted.
\<close>

definition transfer_conv :: "model \<Rightarrow> layer_vars \<Rightarrow> string \<Rightarrow> string \<Rightarrow> nat \<Rightarrow> 'a cmd" where
  "transfer_conv source v curr_sim source_sim conv_count =
     with_val (py_int curr_sim) (\<lambda>curr_kernel.
     with_val (py_int source_sim) (\<lambda>source_kernel.
     (let p = Attention (lv_i v);
          lower_sim_type = min curr_kernel source_kernel;
          ahs = Upto (lv_lower_attention_head_size v);
          key_conv_attn_layer = ''self.key_conv_attn_layer'' @ str_nat conv_count @ ''.'';
          conv_kernel_layer = ''self.conv_kernel_layer'' @ str_nat conv_count @ ''.'';
          conv_out_layer = ''self.conv_out_layer'' @ str_nat conv_count @ ''.''
      in
      block [
        need_own_module p key_conv_attn_layer, need_module source p key_conv_attn_layer,
        need_own_module p conv_kernel_layer, need_module source p conv_kernel_layer,
        need_own_module p conv_out_layer, need_module source p conv_out_layer,
        if lv_attention_head_size v = lv_source_head_size v \<and> curr_kernel = source_kernel then
          block [
            load_state_dict source p key_conv_attn_layer,
            load_state_dict source p conv_kernel_layer,
            load_state_dict source p conv_out_layer]
        else
          block [
            assign_to p (key_conv_attn_layer @ ''bias'') [ahs, All]
              (from_source source p (key_conv_attn_layer @ ''bias'') [ahs, All]),
            assign_to p (key_conv_attn_layer @ ''depthwise.weight'')
              [ahs, All, Upto lower_sim_type]
              (\<lambda>st. then_do
                 (from_source source p (key_conv_attn_layer @ ''depthwise.weight'')
                    [ahs, All, All] st)
                 (\<lambda>x. interpolate x lower_sim_type)),
            assign_to p (key_conv_attn_layer @ ''pointwise.weight'') [ahs, ahs]
              (from_source source p (key_conv_attn_layer @ ''pointwise.weight'') [ahs, ahs]),
            assign_to p (conv_kernel_layer @ ''weight'') [Upto lower_sim_type, ahs]
              (from_source source p (conv_kernel_layer @ ''weight'') [Upto lower_sim_type, ahs]),
            assign_to p (conv_kernel_layer @ ''bias'') [Upto lower_sim_type]
              (from_source source p (conv_kernel_layer @ ''bias'') [Upto lower_sim_type]),
            assign_to p (conv_out_layer @ ''weight'') [ahs, ahs]
              (from_source source p (conv_out_layer @ ''weight'') [ahs, ahs]),
            assign_to p (conv_out_layer @ ''bias'') [ahs]
              (from_source source p (conv_out_layer @ ''bias'') [ahs])]])))"

text \<open>\<^verbatim>\<open>assert self...dense.weight.shape[0] == lower_hidden_size\<close>.\<close>

definition assert_shape0 :: "part \<Rightarrow> string \<Rightarrow> int \<Rightarrow> 'a cmd" where
  "assert_shape0 p name n st =
     then_do (param (store st) (self st) p name) (\<lambda>t.
     then_do (shape_at t 0) (\<lambda>k. if k = n then Inr st else Inl AssertionError))"

text \<open>
  The output projection of the attention block (lines 1775 to 1793). In the source this
  statement stands in the loop over the heads, after the test of the head's type and
  outside it.
\<close>

definition transfer_attention_output :: "'a projection \<Rightarrow> model \<Rightarrow> layer_vars \<Rightarrow> nat \<Rightarrow> 'a cmd" where
  "transfer_attention_output rp source v j =
     (let p = Attention (lv_i v); cols = head_rows v j; rows = Upto (lv_lower_hidden_size v) in
      if lv_curr_all_head_size v = lv_source_all_head_size v \<and> lv_hidden v = lv_source_hidden v
      then load_state_dict source p ''output.''
      else
        block [
          assign_to p ''output.dense.bias'' [rows]
            (from_source source p ''output.dense.bias'' [rows]),
          if lv_hidden v \<noteq> lv_source_hidden v then
            (if lv_mode v = ''OD'' then
               assign_to p ''output.dense.weight'' [rows, cols]
                 (from_source source p ''output.dense.weight'' [rows, cols])
             else
               assign_rp p ''output.dense.weight'' [rows, cols]
                 (projected_t rp (lv_lower_hidden_size v)
                    (from_source source p ''output.dense.weight'' [rows, cols])))
          else
            block [
              assign_to p ''output.dense.weight'' [All, cols]
                (from_source source p ''output.dense.weight'' [All, cols]),
              assert_shape0 p ''output.dense.weight'' (lv_lower_hidden_size v)]])"

text \<open>
  One round of the loop over the heads (lines 1687 to 1793): the state and the counters
  \<^verbatim>\<open>wma_count\<close> and \<^verbatim>\<open>conv_count\<close> after it.
\<close>

definition transfer_head ::
  "'a projection \<Rightarrow> model \<Rightarrow> layer_vars \<Rightarrow> nat \<Rightarrow> nat \<times> nat \<Rightarrow> 'a state \<Rightarrow>
   error + 'a state \<times> nat \<times> nat" where
  "transfer_head rp source v j counts st =
     (case counts of (wma_count, conv_count) \<Rightarrow>
      then_do (nth_err (lv_curr_attn_types v) j) (\<lambda>curr_attn.
      then_do (nth_err (lv_source_attn_types v) j) (\<lambda>source_attn.
      then_do
        (if curr_attn = source_attn then
           then_do ((if lv_debug v then transfer_qkv rp source v j else skip) st) (\<lambda>st1.
           then_do (nth_err (lv_curr_sim_types v) j) (\<lambda>curr_sim.
           if curr_sim = ''wma'' then
             then_do (nth_err (lv_source_sim_types v) j) (\<lambda>source_sim.
             if source_sim = ''wma'' then
               then_do (transfer_wma rp source v wma_count st1) (\<lambda>st2.
               Inr (st2, wma_count + 1, conv_count))
             else Inr (st1, wma_count, conv_count))
           else if isnumeric curr_sim then
             then_do (nth_err (lv_source_sim_types v) j) (\<lambda>source_sim.
             then_do (transfer_conv source v curr_sim source_sim conv_count st1) (\<lambda>st2.
             Inr (st2, wma_count, conv_count + 1)))
           else Inr (st1, wma_count, conv_count)))
         else Inr (st, wma_count, conv_count))
        (\<lambda>(st', counts').
        then_do (transfer_attention_output rp source v j st') (\<lambda>st''.
        Inr (st'', counts'))))))"

fun heads_loop ::
  "'a projection \<Rightarrow> model \<Rightarrow> layer_vars \<Rightarrow> nat list \<Rightarrow> nat \<times> nat \<Rightarrow> 'a cmd" where
  "heads_loop rp source v [] counts st = Inr st"
| "heads_loop rp source v (j # js) counts st =
     then_do (transfer_head rp source v j counts st) (\<lambda>(st', counts').
     heads_loop rp source v js counts' st')"

text \<open>A layer norm (lines 1795 to 1801 and 1832 to 1836).\<close>

definition transfer_layer_norm :: "model \<Rightarrow> part \<Rightarrow> string \<Rightarrow> int \<Rightarrow> int \<Rightarrow> 'a cmd" where
  "transfer_layer_norm source p pre hidden source_hidden =
     (let lower_hidden_size = min hidden source_hidden in
      if hidden = source_hidden then load_state_dict source p pre
      else
        block [
          assign_to p (pre @ ''weight'') [Upto lower_hidden_size]
            (from_source source p (pre @ ''weight'') [Upto lower_hidden_size]),
          assign_to p (pre @ ''bias'') [Upto lower_hidden_size]
            (from_source source p (pre @ ''bias'') [Upto lower_hidden_size])])"

text \<open>The stage \<open>f\<close> of the feed-forward block (lines 1806 to 1816).\<close>

definition shape_of :: "model \<Rightarrow> part \<Rightarrow> string \<Rightarrow> nat \<Rightarrow> 'a state \<Rightarrow> error + int" where
  "shape_of m p name k st = then_do (param (store st) m p name) (\<lambda>t. shape_at t k)"

definition own_shape :: "part \<Rightarrow> string \<Rightarrow> nat \<Rightarrow> 'a state \<Rightarrow> error + int" where
  "own_shape p name k st = shape_of (self st) p name k st"

definition transfer_feed_forward :: "model \<Rightarrow> nat \<Rightarrow> nat \<Rightarrow> 'a cmd" where
  "transfer_feed_forward source i f =
     (let p = Intermediate i;
          weight = ''sequential.'' @ str_nat (2 * f) @ ''.weight'';
          bias = ''sequential.'' @ str_nat (2 * f) @ ''.bias''
      in
      with_read (own_shape p weight 0) (\<lambda>d0.
      with_read (shape_of source p weight 0) (\<lambda>s0.
      with_read (own_shape p weight 1) (\<lambda>d1.
      with_read (shape_of source p weight 1) (\<lambda>s1.
      (let lower_dim_0 = min d0 s0; lower_dim_1 = min d1 s1 in
       block [
         assign_to p weight [Upto lower_dim_0, Upto lower_dim_1]
           (from_source source p weight [Upto lower_dim_0, Upto lower_dim_1]),
         assign_to p bias [Upto lower_dim_0]
           (from_source source p bias [Upto lower_dim_0])]))))))"

text \<open>\<^verbatim>\<open>xs[-1]\<close>.\<close>

definition last_err :: "'b list \<Rightarrow> error + 'b" where
  "last_err xs = (if xs = [] then Inl IndexError else Inr (last xs))"

text \<open>The output projection of the layer (lines 1818 to 1830).\<close>

definition transfer_output_dense ::
  "'a projection \<Rightarrow> model \<Rightarrow> config \<Rightarrow> config \<Rightarrow> string \<Rightarrow> nat \<Rightarrow> int \<Rightarrow> int \<Rightarrow> 'a cmd" where
  "transfer_output_dense rp source tc sc mode i hidden source_hidden =
     (let p = Output i; rows = Upto (min hidden source_hidden) in
      with_val (then_do (nth_err (ff_dim_list tc) i) last_err) (\<lambda>ff.
      with_val (then_do (nth_err (ff_dim_list sc) i) last_err) (\<lambda>source_ff.
      (let cols = Upto (min ff source_ff) in
       block [
         assign_to p ''dense.bias'' [rows] (from_source source p ''dense.bias'' [rows]),
         if hidden \<noteq> source_hidden then
           (if mode = ''OD'' then
              assign_to p ''dense.weight'' [rows, cols]
                (from_source source p ''dense.weight'' [rows, cols])
            else
              assign_rp p ''dense.weight'' [rows, cols]
                (projected_t rp (min hidden source_hidden)
                   (from_source source p ''dense.weight'' [rows, cols])))
         else
           assign_to p ''dense.weight'' [All, cols]
             (from_source source p ''dense.weight'' [All, cols])]))))"

definition descriptors :: "config \<Rightarrow> nat \<Rightarrow> error + string list" where
  "descriptors cfg i = then_do (nth_err (attention_heads_list cfg) i) head_list"

definition first_head_size :: "string list \<Rightarrow> error + int" where
  "first_head_size heads = then_do (nth_err heads 0) head_size"

text \<open>One round of the loop over the layers in the heterogeneous mode (lines 1642 to
  1838). The two \<^verbatim>\<open>dropout\<close> modules have no state; loading it does nothing.\<close>

definition hetero_layer ::
  "'a projection \<Rightarrow> model \<Rightarrow> bool \<Rightarrow> config \<Rightarrow> config \<Rightarrow> string \<Rightarrow> nat \<Rightarrow> 'a cmd" where
  "hetero_layer rp source debug tc sc mode i =
     (if mode \<noteq> ''OD'' \<and> mode \<noteq> ''RP'' then skip
      else
        with_val (descriptors tc i) (\<lambda>heads.
        with_val (first_head_size heads) (\<lambda>attention_head_size.
        with_read (own_shape (Attention i) ''self.query.weight'' 1) (\<lambda>_.
        with_read (shape_of source (Attention i) ''self.query.weight'' 1) (\<lambda>_.
        with_val (descriptors sc i) (\<lambda>source_heads.
        with_val (first_head_size source_heads) (\<lambda>source_head_size.
        with_val (nth_err (hidden_dim_list tc) i) (\<lambda>hidden.
        with_val (nth_err (hidden_dim_list sc) i) (\<lambda>source_hidden.
        block [
          transfer_distance_embedding rp source mode i attention_head_size source_head_size,
          with_val (map_err (\<lambda>d. head_field d 0) heads) (\<lambda>curr_attn_types.
          with_val (map_err (\<lambda>d. head_field d 0) source_heads) (\<lambda>source_attn_types.
          with_val (map_err (\<lambda>d. head_field d 1) heads) (\<lambda>curr_sim_types.
          with_val (map_err (\<lambda>d. head_field d 1) source_heads) (\<lambda>source_sim_types.
          heads_loop rp source
            \<lparr>lv_i = i, lv_mode = mode, lv_debug = debug,
             lv_attention_head_size = attention_head_size,
             lv_source_head_size = source_head_size,
             lv_lower_attention_head_size = min attention_head_size source_head_size,
             lv_hidden = hidden, lv_source_hidden = source_hidden,
             lv_lower_hidden_size = min hidden source_hidden,
             lv_curr_attn_types = curr_attn_types,
             lv_source_attn_types = source_attn_types,
             lv_curr_sim_types = curr_sim_types,
             lv_source_sim_types = source_sim_types,
             lv_curr_all_head_size = int (length heads) * attention_head_size,
             lv_source_all_head_size = int (length source_heads) * source_head_size\<rparr>
            [0..<min (length heads) (length source_heads)] (0, 0))))),
          transfer_layer_norm source (Attention i) ''output.LayerNorm.'' hidden source_hidden,
          with_val (nth_err (ff_dim_list tc) i) (\<lambda>ff.
          with_val (nth_err (ff_dim_list sc) i) (\<lambda>source_ff.
          block (map (transfer_feed_forward source i)
                   [0..<min (length ff) (length source_ff)]))),
          transfer_output_dense rp source tc sc mode i hidden source_hidden,
          transfer_layer_norm source (Output i) ''LayerNorm.'' hidden source_hidden
        ])))))))))"

text \<open>One round of the loop over the layers in the homogeneous mode, for a layer whose
  attention type is that of the source (lines 1844 to 1859).\<close>

definition homo_layer :: "model \<Rightarrow> config \<Rightarrow> config \<Rightarrow> nat \<Rightarrow> nat \<Rightarrow> 'a cmd" where
  "homo_layer source tc sc n i =
     with_val (nth_err (hidden_dim_list tc) i) (\<lambda>hidden.
     with_val (nth_err (hidden_dim_list sc) i) (\<lambda>source_hidden.
     if hidden \<noteq> source_hidden then skip
     else
       with_val (nth_err (attention_heads_list tc) i) (\<lambda>heads.
       with_val (nth_err (attention_heads_list sc) i) (\<lambda>source_heads.
       if heads \<noteq> source_heads then skip
       else
         with_val (nth_err (similarity_list tc) i) (\<lambda>sim.
         with_val (nth_err (similarity_list sc) i) (\<lambda>source_sim.
         if sim \<noteq> source_sim then skip
         else
           block [
             load_state_dict source (Attention i) [],
             count_state_dict source (Attention i) [],
             with_val (nth_err (ff_dim_list tc) i) (\<lambda>ff.
             with_val (nth_err (ff_dim_list sc) i) (\<lambda>source_ff.
             if ff \<noteq> source_ff then skip
             else
               block [
                 load_state_dict source (Intermediate i) [],
                 count_state_dict source (Intermediate i) [],
                 if i + 1 < n then
                   with_val (nth_err (hidden_dim_list tc) (i + 1)) (\<lambda>next_hidden.
                   with_val (nth_err (hidden_dim_list sc) (i + 1)) (\<lambda>source_next_hidden.
                   if next_hidden = source_next_hidden then
                     block [
                       load_state_dict source (Output i) [],
                       count_state_dict source (Output i) []]
                   else skip))
                 else skip]))]))))))"

text \<open>The loop over the layers in the homogeneous mode (lines 1840 to 1865): it ends at
  the first layer whose attention type differs from the source's.\<close>

fun homo_loop :: "model \<Rightarrow> config \<Rightarrow> config \<Rightarrow> nat \<Rightarrow> nat list \<Rightarrow> 'a cmd" where
  "homo_loop source tc sc n [] = skip"
| "homo_loop source tc sc n (i # is) =
     with_val (nth_err (attention_type tc) i) (\<lambda>ty.
     with_val (nth_err (attention_type sc) i) (\<lambda>source_ty.
     if ty = source_ty then seq (homo_layer source tc sc n i) (homo_loop source tc sc n is)
     else skip))"

text \<open>\<^verbatim>\<open>len(self.embeddings.state_dict()) + len(self.encoder.state_dict())\<close>.\<close>

definition total_entries :: "model \<Rightarrow> nat" where
  "total_entries m =
     length (embeddings m) +
     sum_list (map (\<lambda>l. length (attention l) + length (crossattention l) +
                      length (intermediate l) + length (output l)) (encoder m))"

text \<open>
  \<^verbatim>\<open>BertModelModular.load_model_from_source\<close>, called on the model \<open>target\<close> in the
  store \<open>s\<close>: the state after the transfer and the ratio it returns.
\<close>

definition load_model_from_source ::
  "'a projection \<Rightarrow> 'a store \<Rightarrow> model \<Rightarrow> model \<Rightarrow> bool \<Rightarrow> error + 'a state \<times> rat" where
  "load_model_from_source rp s target source debug =
     (let tc = model_config target; sc = model_config source;
          total = total_entries target;
          n = min (num_hidden_layers tc) (num_hidden_layers sc);
          mode = transfer_mode target
      in
      if from_model_dict_hetero tc \<noteq> from_model_dict_hetero sc then Inl AssertionError
      else
        then_do
          (block [
             load_embeddings rp source tc sc mode,
             if from_model_dict_hetero tc
             then block (map (hetero_layer rp source debug tc sc mode) [0..<n])
             else homo_loop source tc sc n [0..<n]]
             \<lparr>store = s, self = target, count = 0, rp_calls = 0\<rparr>) (\<lambda>st.
        if total = 0 then Inl ZeroDivisionError
        else Inr (st, of_nat (count st) / of_nat total)))"

text \<open>What a call returned and what the target holds after it.\<close>

definition returned_ratio :: "error + 'a state \<times> rat \<Rightarrow> error + rat" where
  "returned_ratio r = then_do r (\<lambda>(st, q). Inr q)"

definition param_after :: "error + 'a state \<times> rat \<Rightarrow> part \<Rightarrow> string \<Rightarrow> error + 'a tensor" where
  "param_after r p name = then_do r (\<lambda>(st, q). param (store st) (self st) p name)"

definition addr_after :: "error + 'a state \<times> rat \<Rightarrow> part \<Rightarrow> string \<Rightarrow> error + addr" where
  "addr_after r p name = then_do r (\<lambda>(st, q). param_addr (self st) p name)"

text \<open>A parameter of the model \<open>m\<close> as it stands after the call (\<open>m\<close> is the source, or
  any model that shares the store).\<close>

definition other_param_after ::
  "error + 'a state \<times> rat \<Rightarrow> model \<Rightarrow> part \<Rightarrow> string \<Rightarrow> error + 'a tensor" where
  "other_param_after r m p name = then_do r (\<lambda>(st, q). param (store st) m p name)"

text \<open>An in-place update of a parameter of the target after the call, as a training step
  makes it.\<close>

definition update_after ::
  "error + 'a state \<times> rat \<Rightarrow> part \<Rightarrow> string \<Rightarrow> 'a tensor \<Rightarrow> error + 'a state \<times> rat" where
  "update_after r p name t =
     then_do r (\<lambda>(st, q). then_do (assign_to p name [] (\<lambda>_. Inr t) st) (\<lambda>st'. Inr (st', q)))"

text \<open>The projection used in the examples keeps its argument.\<close>

definition ex_rp :: "int projection" where
  "ex_rp k n x = Inr x"


section \<open>Locations and footprints\<close>

text \<open>
  A location is a part of the model and a name of its registry. The names that
  \<^verbatim>\<open>setattr\<close> rebinds are the bilinear matrices \<^verbatim>\<open>self.W0\<close>, \<^verbatim>\<open>self.W1\<close>, ... of
  an attention block; the query, key and value parameters are six names of an attention
  block.
\<close>

type_synonym locs = "part \<Rightarrow> string \<Rightarrow> bool"

definition W_name :: "string \<Rightarrow> bool" where
  "W_name n = (take 6 n = ''self.W'')"

definition W_loc :: locs where
  "W_loc p n = (case p of Attention i \<Rightarrow> W_name n | _ \<Rightarrow> False)"

definition qkv_names :: "string list" where
  "qkv_names =
     [''self.query.weight'', ''self.query.bias'', ''self.key.weight'', ''self.key.bias'',
      ''self.value.weight'', ''self.value.bias'']"

definition qkv_loc :: locs where
  "qkv_loc p n = (case p of Attention i \<Rightarrow> n \<in> set qkv_names | _ \<Rightarrow> False)"

definition other_loc :: locs where
  "other_loc p n = (\<not> qkv_loc p n \<and> \<not> W_loc p n)"

text \<open>The part a location of layer \<open>i\<close> lies in.\<close>

definition layer_of :: "part \<Rightarrow> nat option" where
  "layer_of p =
     (case p of Embeddings \<Rightarrow> None | Attention i \<Rightarrow> Some i | Intermediate i \<Rightarrow> Some i
      | Output i \<Rightarrow> Some i)"

text \<open>All entries of the registries of a model, and the parameter objects that a model
  holds at the locations \<open>F\<close>.\<close>

definition layer_entries :: "nat \<times> layer \<Rightarrow> (part \<times> string \<times> addr) list" where
  "layer_entries il =
     (case il of (i, l) \<Rightarrow>
        map (\<lambda>(n, a). (Attention i, n, a)) (attention l) @
        map (\<lambda>(n, a). (Intermediate i, n, a)) (intermediate l) @
        map (\<lambda>(n, a). (Output i, n, a)) (output l))"

definition entries :: "model \<Rightarrow> (part \<times> string \<times> addr) list" where
  "entries m =
     map (\<lambda>(n, a). (Embeddings, n, a)) (embeddings m) @
     concat (map layer_entries (enumerate 0 (encoder m)))"

definition owned :: "model \<Rightarrow> locs \<Rightarrow> addr list" where
  "owned m F = map (\<lambda>(p, n, a). a) (filter (\<lambda>(p, n, a). F p n) (entries m))"

text \<open>No object that \<open>m\<close> holds at a location of \<open>F\<close> is also held at a location of \<open>G\<close>.\<close>

definition separate :: "model \<Rightarrow> locs \<Rightarrow> locs \<Rightarrow> bool" where
  "separate m F G = list_all (\<lambda>a. a \<notin> set (owned m G)) (owned m F)"

text \<open>
  What \<^verbatim>\<open>setattr\<close> leaves of a model: everything but the bindings of the bilinear
  matrices.
\<close>

definition non_W :: "module \<Rightarrow> module" where
  "non_W reg = filter (\<lambda>(n, a). \<not> W_name n) reg"

definition layer_stable :: "layer \<Rightarrow> layer \<Rightarrow> bool" where
  "layer_stable l l' =
     (non_W (attention l') = non_W (attention l) \<and> intermediate l' = intermediate l \<and>
      output l' = output l \<and> crossattention l' = crossattention l)"

definition stable :: "model \<Rightarrow> model \<Rightarrow> bool" where
  "stable m m' =
     (model_config m' = model_config m \<and> embeddings m' = embeddings m \<and>
      transfer_mode m' = transfer_mode m \<and> list_all2 layer_stable (encoder m) (encoder m'))"


text \<open>
  The state \<open>st'\<close> differs from \<open>st\<close> within the locations \<open>F\<close>: nothing but bilinear
  matrices has been rebound, the target holds no new object at \<open>F\<close>, and no object has
  been written but those that the target held at \<open>F\<close>. A command stays within \<open>F\<close> when
  every state it returns differs from the state it started in within \<open>F\<close>.
\<close>

definition only_at :: "locs \<Rightarrow> 'a state \<Rightarrow> 'a state \<Rightarrow> bool" where
  "only_at F st st' =
     (stable (self st) (self st') \<and>
      set (owned (self st') F) \<subseteq> set (owned (self st) F) \<and>
      (\<forall>a. a \<notin> set (owned (self st) F) \<longrightarrow> store st' a = store st a))"

definition frames :: "locs \<Rightarrow> 'a cmd \<Rightarrow> bool" where
  "frames F c = (\<forall>st st'. c st = Inr st' \<longrightarrow> only_at F st st')"

text \<open>A command rebinds no name of the target.\<close>

definition keeps_self :: "'a cmd \<Rightarrow> bool" where
  "keeps_self c = (\<forall>st st'. c st = Inr st' \<longrightarrow> self st' = self st)"

text \<open>The locations of the layers whose index satisfies \<open>P\<close>, and all other locations.\<close>

definition in_layers :: "(nat \<Rightarrow> bool) \<Rightarrow> locs" where
  "in_layers P p n = (case layer_of p of None \<Rightarrow> False | Some k \<Rightarrow> P k)"

definition not_in_layers :: "(nat \<Rightarrow> bool) \<Rightarrow> locs" where
  "not_in_layers P p n = (\<not> in_layers P p n)"

section \<open>Models of one configuration\<close>

text \<open>
  Loading a whole part from the source and counting it, as the homogeneous mode does
  for the embeddings and the blocks of a layer, and the parts that the homogeneous mode
  loads in a transfer over \<open>n\<close> layers when nothing stops it: the embeddings, and of layer
  \<open>i\<close> the attention block, the intermediate block and, unless the layer is the last,
  the output block.
\<close>

definition load_part :: "model \<Rightarrow> part \<Rightarrow> 'a cmd" where
  "load_part source p = seq (load_state_dict source p []) (count_state_dict source p [])"

definition layer_parts :: "nat \<Rightarrow> nat \<Rightarrow> part list" where
  "layer_parts n i = [Attention i, Intermediate i] @ (if i + 1 < n then [Output i] else [])"

definition loaded_parts :: "nat \<Rightarrow> part list" where
  "loaded_parts n = Embeddings # concat (map (layer_parts n) [0..<n])"

text \<open>The objects of a part, and the number of tensors of the parts \<open>ps\<close>.\<close>

definition part_addrs :: "model \<Rightarrow> part \<Rightarrow> addr list" where
  "part_addrs m p = (case registry m p of Inl e \<Rightarrow> [] | Inr reg \<Rightarrow> map snd reg)"

definition entries_of :: "model \<Rightarrow> part list \<Rightarrow> nat" where
  "entries_of m ps = sum_list (map (\<lambda>p. length (part_addrs m p)) ps)"

text \<open>
  The tensor that a registry holds under a name, and when the part \<open>p\<close> of the target can
  be loaded from the source in the store \<open>s\<close>: both models have the part, the source's
  tensors are allocated, the source has no name that the target lacks, every tensor of
  the target has a tensor of its name and shape in the source, and where the target
  holds one object under two names (tied weights) the source has equal tensors there.
\<close>

definition value_of :: "'a store \<Rightarrow> module \<Rightarrow> string \<Rightarrow> 'a tensor option" where
  "value_of s reg n = (case map_of reg n of None \<Rightarrow> None | Some b \<Rightarrow> s b)"

definition fits :: "'a store \<Rightarrow> module \<Rightarrow> string \<times> addr \<Rightarrow> bool" where
  "fits s rs e =
     (case e of (n, a) \<Rightarrow>
        (case s a of None \<Rightarrow> False
         | Some t \<Rightarrow> (case value_of s rs n of None \<Rightarrow> False | Some v \<Rightarrow> same_shape t v)))"

definition ties_agree :: "'a store \<Rightarrow> module \<Rightarrow> module \<Rightarrow> bool" where
  "ties_agree s rs rt =
     list_all (\<lambda>(n, a). list_all (\<lambda>(n', a'). a \<noteq> a' \<or> value_of s rs n = value_of s rs n') rt) rt"

definition loadable :: "'a store \<Rightarrow> model \<Rightarrow> model \<Rightarrow> part \<Rightarrow> bool" where
  "loadable s target source p =
     (case registry target p of Inl e \<Rightarrow> False
      | Inr rt \<Rightarrow>
          (case registry source p of Inl e \<Rightarrow> False
           | Inr rs \<Rightarrow>
               list_all (\<lambda>(n, b). s b \<noteq> None) rs \<and>
               list_all (\<lambda>n. n \<in> set (map fst rt)) (map fst rs) \<and>
               list_all (fits s rs) rt \<and> ties_agree s rs rt))"

text \<open>
  The parts \<open>ps\<close> of the two models are laid out alike in the store \<open>s\<close>: each part can be
  loaded, no two parts of the target share an object, and no object of the source in
  these parts is an object of the target in them.
\<close>

definition apart :: "addr list \<Rightarrow> addr list \<Rightarrow> bool" where
  "apart xs ys = list_all (\<lambda>a. a \<notin> set ys) xs"

fun parts_apart :: "model \<Rightarrow> part list \<Rightarrow> bool" where
  "parts_apart m [] = True"
| "parts_apart m (p # ps) =
     (list_all (\<lambda>q. apart (part_addrs m p) (part_addrs m q)) ps \<and> parts_apart m ps)"

definition alike :: "'a store \<Rightarrow> model \<Rightarrow> model \<Rightarrow> part list \<Rightarrow> bool" where
  "alike s target source ps =
     (list_all (loadable s target source) ps \<and> parts_apart target ps \<and>
      list_all (\<lambda>p. list_all (\<lambda>q. apart (part_addrs source p) (part_addrs target q)) ps) ps)"

text \<open>The lists of a configuration have an entry for each of its layers.\<close>

definition config_complete :: "config \<Rightarrow> bool" where
  "config_complete cfg =
     (let n = num_hidden_layers cfg in
      0 < n \<and> n \<le> length (hidden_dim_list cfg) \<and> n \<le> length (attention_heads_list cfg) \<and>
      n \<le> length (attention_type cfg) \<and> n \<le> length (similarity_list cfg) \<and>
      n \<le> length (ff_dim_list cfg))"

section \<open>Example inputs\<close>




definition ex_hetero :: "(unit, int) hetero_attention" where
  "ex_hetero =
     \<lparr>ha_query = (\<lambda>_. [[[[1, 2]], [[3, 4]], [[5, 6]]]]),
      ha_key = (\<lambda>_. [[[[5, 6]], [[7, 8]], [[9, 10]]]]),
      ha_value = (\<lambda>_. [[[[1, 1]], [[1, 1]], [[1, 1]]]]),
      ha_is_decoder = True, ha_num_attention_heads = 3,
      ha_attention_types = [''sa'', ''l'', ''c''],
      ha_sim_types = [''wma'', ''dct'', ''3''],
      ha_W = [[[1, 0], [0, 2]]]\<rparr>"



text \<open>
  Example models, with the registries and tensor shapes that the constructors give a
  model of each configuration (vocabulary of 2 tokens, one position, one token type,
  relative position embeddings in the heterogeneous mode). The parameters of a target
  have the addresses from 0, those of a source the addresses from 100; the entries of the
  tensors are pairwise different.
\<close>

text \<open>Two homogeneous models of one layer with the same configuration.\<close>

definition ex_same_target :: model where
  "ex_same_target =
     \<lparr>model_config =
       \<lparr>from_model_dict_hetero = False, num_hidden_layers = 1,
        hidden_dim_list = [2],
        attention_heads_list = [NumHeads 1],
        attention_type = [''sa''],
        similarity_list = [SimName ''sdp''],
        ff_dim_list = [[2]], has_embedding_size = False\<rparr>,
      embeddings =
        [(''word_embeddings.weight'', 0),
         (''position_embeddings.weight'', 1),
         (''token_type_embeddings.weight'', 2),
         (''LayerNorm.weight'', 3),
         (''LayerNorm.bias'', 4),
         (''position_ids'', 5)],
      encoder =
        [\<lparr>attention =
           [(''self.W'', 6),
            (''self.query.weight'', 7),
            (''self.query.bias'', 8),
            (''self.key.weight'', 9),
            (''self.key.bias'', 10),
            (''self.value.weight'', 11),
            (''self.value.bias'', 12),
            (''output.dense.weight'', 13),
            (''output.dense.bias'', 14),
            (''output.LayerNorm.weight'', 15),
            (''output.LayerNorm.bias'', 16)],
         intermediate =
           [(''dense.weight'', 17),
            (''dense.bias'', 18),
            (''sequential.0.weight'', 17),
            (''sequential.0.bias'', 18)],
         output =
           [(''dense.weight'', 19),
            (''dense.bias'', 20),
            (''LayerNorm.weight'', 21),
            (''LayerNorm.bias'', 22)],
         crossattention = []\<rparr>],
      transfer_mode = ''OD''\<rparr>"

definition ex_same_source :: model where
  "ex_same_source =
     \<lparr>model_config =
       \<lparr>from_model_dict_hetero = False, num_hidden_layers = 1,
        hidden_dim_list = [2],
        attention_heads_list = [NumHeads 1],
        attention_type = [''sa''],
        similarity_list = [SimName ''sdp''],
        ff_dim_list = [[2]], has_embedding_size = False\<rparr>,
      embeddings =
        [(''word_embeddings.weight'', 100),
         (''position_embeddings.weight'', 101),
         (''token_type_embeddings.weight'', 102),
         (''LayerNorm.weight'', 103),
         (''LayerNorm.bias'', 104),
         (''position_ids'', 105)],
      encoder =
        [\<lparr>attention =
           [(''self.W'', 106),
            (''self.query.weight'', 107),
            (''self.query.bias'', 108),
            (''self.key.weight'', 109),
            (''self.key.bias'', 110),
            (''self.value.weight'', 111),
            (''self.value.bias'', 112),
            (''output.dense.weight'', 113),
            (''output.dense.bias'', 114),
            (''output.LayerNorm.weight'', 115),
            (''output.LayerNorm.bias'', 116)],
         intermediate =
           [(''dense.weight'', 117),
            (''dense.bias'', 118),
            (''sequential.0.weight'', 117),
            (''sequential.0.bias'', 118)],
         output =
           [(''dense.weight'', 119),
            (''dense.bias'', 120),
            (''LayerNorm.weight'', 121),
            (''LayerNorm.bias'', 122)],
         crossattention = []\<rparr>],
      transfer_mode = ''OD''\<rparr>"

definition ex_same_store :: "int store" where
  "ex_same_store =
     map_of
       [(0, T2 [[1000, 1001], [1002, 1003]]),
        (1, T2 [[1004, 1005]]),
        (2, T2 [[1006, 1007]]),
        (3, T1 [1008, 1009]),
        (4, T1 [1010, 1011]),
        (5, T2 [[1012]]),
        (6, T2 [[1013, 1014], [1015, 1016]]),
        (7, T2 [[1017, 1018], [1019, 1020]]),
        (8, T1 [1021, 1022]),
        (9, T2 [[1023, 1024], [1025, 1026]]),
        (10, T1 [1027, 1028]),
        (11, T2 [[1029, 1030], [1031, 1032]]),
        (12, T1 [1033, 1034]),
        (13, T2 [[1035, 1036], [1037, 1038]]),
        (14, T1 [1039, 1040]),
        (15, T1 [1041, 1042]),
        (16, T1 [1043, 1044]),
        (17, T2 [[1045, 1046], [1047, 1048]]),
        (18, T1 [1049, 1050]),
        (19, T2 [[1051, 1052], [1053, 1054]]),
        (20, T1 [1055, 1056]),
        (21, T1 [1057, 1058]),
        (22, T1 [1059, 1060]),
        (100, T2 [[5000, 5001], [5002, 5003]]),
        (101, T2 [[5004, 5005]]),
        (102, T2 [[5006, 5007]]),
        (103, T1 [5008, 5009]),
        (104, T1 [5010, 5011]),
        (105, T2 [[5012]]),
        (106, T2 [[5013, 5014], [5015, 5016]]),
        (107, T2 [[5017, 5018], [5019, 5020]]),
        (108, T1 [5021, 5022]),
        (109, T2 [[5023, 5024], [5025, 5026]]),
        (110, T1 [5027, 5028]),
        (111, T2 [[5029, 5030], [5031, 5032]]),
        (112, T1 [5033, 5034]),
        (113, T2 [[5035, 5036], [5037, 5038]]),
        (114, T1 [5039, 5040]),
        (115, T1 [5041, 5042]),
        (116, T1 [5043, 5044]),
        (117, T2 [[5045, 5046], [5047, 5048]]),
        (118, T1 [5049, 5050]),
        (119, T2 [[5051, 5052], [5053, 5054]]),
        (120, T1 [5055, 5056]),
        (121, T1 [5057, 5058]),
        (122, T1 [5059, 5060])]"


text \<open>Two homogeneous models of two layers that differ in the head count of layer 0.\<close>

definition ex_heads_target :: model where
  "ex_heads_target =
     \<lparr>model_config =
       \<lparr>from_model_dict_hetero = False, num_hidden_layers = 2,
        hidden_dim_list = [2, 2],
        attention_heads_list = [NumHeads 1, NumHeads 1],
        attention_type = [''sa'', ''sa''],
        similarity_list = [SimName ''sdp'', SimName ''sdp''],
        ff_dim_list = [[2], [2]], has_embedding_size = False\<rparr>,
      embeddings =
        [(''word_embeddings.weight'', 0),
         (''position_embeddings.weight'', 1),
         (''token_type_embeddings.weight'', 2),
         (''LayerNorm.weight'', 3),
         (''LayerNorm.bias'', 4),
         (''position_ids'', 5)],
      encoder =
        [\<lparr>attention =
           [(''self.W'', 6),
            (''self.query.weight'', 7),
            (''self.query.bias'', 8),
            (''self.key.weight'', 9),
            (''self.key.bias'', 10),
            (''self.value.weight'', 11),
            (''self.value.bias'', 12),
            (''output.dense.weight'', 13),
            (''output.dense.bias'', 14),
            (''output.LayerNorm.weight'', 15),
            (''output.LayerNorm.bias'', 16)],
         intermediate =
           [(''dense.weight'', 17),
            (''dense.bias'', 18),
            (''sequential.0.weight'', 17),
            (''sequential.0.bias'', 18)],
         output =
           [(''dense.weight'', 19),
            (''dense.bias'', 20),
            (''LayerNorm.weight'', 21),
            (''LayerNorm.bias'', 22)],
         crossattention = []\<rparr>,
         \<lparr>attention =
           [(''self.W'', 23),
            (''self.query.weight'', 24),
            (''self.query.bias'', 25),
            (''self.key.weight'', 26),
            (''self.key.bias'', 27),
            (''self.value.weight'', 28),
            (''self.value.bias'', 29),
            (''output.dense.weight'', 30),
            (''output.dense.bias'', 31),
            (''output.LayerNorm.weight'', 32),
            (''output.LayerNorm.bias'', 33)],
         intermediate =
           [(''dense.weight'', 34),
            (''dense.bias'', 35),
            (''sequential.0.weight'', 34),
            (''sequential.0.bias'', 35)],
         output =
           [(''dense.weight'', 36),
            (''dense.bias'', 37),
            (''LayerNorm.weight'', 38),
            (''LayerNorm.bias'', 39)],
         crossattention = []\<rparr>],
      transfer_mode = ''OD''\<rparr>"

definition ex_heads_source :: model where
  "ex_heads_source =
     \<lparr>model_config =
       \<lparr>from_model_dict_hetero = False, num_hidden_layers = 2,
        hidden_dim_list = [2, 2],
        attention_heads_list = [NumHeads 2, NumHeads 1],
        attention_type = [''sa'', ''sa''],
        similarity_list = [SimName ''sdp'', SimName ''sdp''],
        ff_dim_list = [[2], [2]], has_embedding_size = False\<rparr>,
      embeddings =
        [(''word_embeddings.weight'', 100),
         (''position_embeddings.weight'', 101),
         (''token_type_embeddings.weight'', 102),
         (''LayerNorm.weight'', 103),
         (''LayerNorm.bias'', 104),
         (''position_ids'', 105)],
      encoder =
        [\<lparr>attention =
           [(''self.W'', 106),
            (''self.query.weight'', 107),
            (''self.query.bias'', 108),
            (''self.key.weight'', 109),
            (''self.key.bias'', 110),
            (''self.value.weight'', 111),
            (''self.value.bias'', 112),
            (''output.dense.weight'', 113),
            (''output.dense.bias'', 114),
            (''output.LayerNorm.weight'', 115),
            (''output.LayerNorm.bias'', 116)],
         intermediate =
           [(''dense.weight'', 117),
            (''dense.bias'', 118),
            (''sequential.0.weight'', 117),
            (''sequential.0.bias'', 118)],
         output =
           [(''dense.weight'', 119),
            (''dense.bias'', 120),
            (''LayerNorm.weight'', 121),
            (''LayerNorm.bias'', 122)],
         crossattention = []\<rparr>,
         \<lparr>attention =
           [(''self.W'', 123),
            (''self.query.weight'', 124),
            (''self.query.bias'', 125),
            (''self.key.weight'', 126),
            (''self.key.bias'', 127),
            (''self.value.weight'', 128),
            (''self.value.bias'', 129),
            (''output.dense.weight'', 130),
            (''output.dense.bias'', 131),
            (''output.LayerNorm.weight'', 132),
            (''output.LayerNorm.bias'', 133)],
         intermediate =
           [(''dense.weight'', 134),
            (''dense.bias'', 135),
            (''sequential.0.weight'', 134),
            (''sequential.0.bias'', 135)],
         output =
           [(''dense.weight'', 136),
            (''dense.bias'', 137),
            (''LayerNorm.weight'', 138),
            (''LayerNorm.bias'', 139)],
         crossattention = []\<rparr>],
      transfer_mode = ''OD''\<rparr>"

definition ex_heads_store :: "int store" where
  "ex_heads_store =
     map_of
       [(0, T2 [[1000, 1001], [1002, 1003]]),
        (1, T2 [[1004, 1005]]),
        (2, T2 [[1006, 1007]]),
        (3, T1 [1008, 1009]),
        (4, T1 [1010, 1011]),
        (5, T2 [[1012]]),
        (6, T2 [[1013, 1014], [1015, 1016]]),
        (7, T2 [[1017, 1018], [1019, 1020]]),
        (8, T1 [1021, 1022]),
        (9, T2 [[1023, 1024], [1025, 1026]]),
        (10, T1 [1027, 1028]),
        (11, T2 [[1029, 1030], [1031, 1032]]),
        (12, T1 [1033, 1034]),
        (13, T2 [[1035, 1036], [1037, 1038]]),
        (14, T1 [1039, 1040]),
        (15, T1 [1041, 1042]),
        (16, T1 [1043, 1044]),
        (17, T2 [[1045, 1046], [1047, 1048]]),
        (18, T1 [1049, 1050]),
        (19, T2 [[1051, 1052], [1053, 1054]]),
        (20, T1 [1055, 1056]),
        (21, T1 [1057, 1058]),
        (22, T1 [1059, 1060]),
        (23, T2 [[1061, 1062], [1063, 1064]]),
        (24, T2 [[1065, 1066], [1067, 1068]]),
        (25, T1 [1069, 1070]),
        (26, T2 [[1071, 1072], [1073, 1074]]),
        (27, T1 [1075, 1076]),
        (28, T2 [[1077, 1078], [1079, 1080]]),
        (29, T1 [1081, 1082]),
        (30, T2 [[1083, 1084], [1085, 1086]]),
        (31, T1 [1087, 1088]),
        (32, T1 [1089, 1090]),
        (33, T1 [1091, 1092]),
        (34, T2 [[1093, 1094], [1095, 1096]]),
        (35, T1 [1097, 1098]),
        (36, T2 [[1099, 1100], [1101, 1102]]),
        (37, T1 [1103, 1104]),
        (38, T1 [1105, 1106]),
        (39, T1 [1107, 1108]),
        (100, T2 [[5000, 5001], [5002, 5003]]),
        (101, T2 [[5004, 5005]]),
        (102, T2 [[5006, 5007]]),
        (103, T1 [5008, 5009]),
        (104, T1 [5010, 5011]),
        (105, T2 [[5012]]),
        (106, T2 [[5013]]),
        (107, T2 [[5014, 5015], [5016, 5017]]),
        (108, T1 [5018, 5019]),
        (109, T2 [[5020, 5021], [5022, 5023]]),
        (110, T1 [5024, 5025]),
        (111, T2 [[5026, 5027], [5028, 5029]]),
        (112, T1 [5030, 5031]),
        (113, T2 [[5032, 5033], [5034, 5035]]),
        (114, T1 [5036, 5037]),
        (115, T1 [5038, 5039]),
        (116, T1 [5040, 5041]),
        (117, T2 [[5042, 5043], [5044, 5045]]),
        (118, T1 [5046, 5047]),
        (119, T2 [[5048, 5049], [5050, 5051]]),
        (120, T1 [5052, 5053]),
        (121, T1 [5054, 5055]),
        (122, T1 [5056, 5057]),
        (123, T2 [[5058, 5059], [5060, 5061]]),
        (124, T2 [[5062, 5063], [5064, 5065]]),
        (125, T1 [5066, 5067]),
        (126, T2 [[5068, 5069], [5070, 5071]]),
        (127, T1 [5072, 5073]),
        (128, T2 [[5074, 5075], [5076, 5077]]),
        (129, T1 [5078, 5079]),
        (130, T2 [[5080, 5081], [5082, 5083]]),
        (131, T1 [5084, 5085]),
        (132, T1 [5086, 5087]),
        (133, T1 [5088, 5089]),
        (134, T2 [[5090, 5091], [5092, 5093]]),
        (135, T1 [5094, 5095]),
        (136, T2 [[5096, 5097], [5098, 5099]]),
        (137, T1 [5100, 5101]),
        (138, T1 [5102, 5103]),
        (139, T1 [5104, 5105])]"


text \<open>Two homogeneous models of two layers that differ in the attention type (and
  similarity) of layer 0.\<close>

definition ex_type_target :: model where
  "ex_type_target =
     \<lparr>model_config =
       \<lparr>from_model_dict_hetero = False, num_hidden_layers = 2,
        hidden_dim_list = [2, 2],
        attention_heads_list = [NumHeads 1, NumHeads 1],
        attention_type = [''sa'', ''sa''],
        similarity_list = [SimName ''sdp'', SimName ''sdp''],
        ff_dim_list = [[2], [2]], has_embedding_size = False\<rparr>,
      embeddings =
        [(''word_embeddings.weight'', 0),
         (''position_embeddings.weight'', 1),
         (''token_type_embeddings.weight'', 2),
         (''LayerNorm.weight'', 3),
         (''LayerNorm.bias'', 4),
         (''position_ids'', 5)],
      encoder =
        [\<lparr>attention =
           [(''self.W'', 6),
            (''self.query.weight'', 7),
            (''self.query.bias'', 8),
            (''self.key.weight'', 9),
            (''self.key.bias'', 10),
            (''self.value.weight'', 11),
            (''self.value.bias'', 12),
            (''output.dense.weight'', 13),
            (''output.dense.bias'', 14),
            (''output.LayerNorm.weight'', 15),
            (''output.LayerNorm.bias'', 16)],
         intermediate =
           [(''dense.weight'', 17),
            (''dense.bias'', 18),
            (''sequential.0.weight'', 17),
            (''sequential.0.bias'', 18)],
         output =
           [(''dense.weight'', 19),
            (''dense.bias'', 20),
            (''LayerNorm.weight'', 21),
            (''LayerNorm.bias'', 22)],
         crossattention = []\<rparr>,
         \<lparr>attention =
           [(''self.W'', 23),
            (''self.query.weight'', 24),
            (''self.query.bias'', 25),
            (''self.key.weight'', 26),
            (''self.key.bias'', 27),
            (''self.value.weight'', 28),
            (''self.value.bias'', 29),
            (''output.dense.weight'', 30),
            (''output.dense.bias'', 31),
            (''output.LayerNorm.weight'', 32),
            (''output.LayerNorm.bias'', 33)],
         intermediate =
           [(''dense.weight'', 34),
            (''dense.bias'', 35),
            (''sequential.0.weight'', 34),
            (''sequential.0.bias'', 35)],
         output =
           [(''dense.weight'', 36),
            (''dense.bias'', 37),
            (''LayerNorm.weight'', 38),
            (''LayerNorm.bias'', 39)],
         crossattention = []\<rparr>],
      transfer_mode = ''OD''\<rparr>"

definition ex_type_source :: model where
  "ex_type_source =
     \<lparr>model_config =
       \<lparr>from_model_dict_hetero = False, num_hidden_layers = 2,
        hidden_dim_list = [2, 2],
        attention_heads_list = [NumHeads 1, NumHeads 1],
        attention_type = [''l'', ''sa''],
        similarity_list = [SimName ''dft'', SimName ''sdp''],
        ff_dim_list = [[2], [2]], has_embedding_size = False\<rparr>,
      embeddings =
        [(''word_embeddings.weight'', 100),
         (''position_embeddings.weight'', 101),
         (''token_type_embeddings.weight'', 102),
         (''LayerNorm.weight'', 103),
         (''LayerNorm.bias'', 104),
         (''position_ids'', 105)],
      encoder =
        [\<lparr>attention =
           [(''self.query.weight'', 106),
            (''self.query.bias'', 107),
            (''self.key.weight'', 108),
            (''self.key.bias'', 109),
            (''self.value.weight'', 110),
            (''self.value.bias'', 111),
            (''output.dense.weight'', 112),
            (''output.dense.bias'', 113),
            (''output.LayerNorm.weight'', 114),
            (''output.LayerNorm.bias'', 115)],
         intermediate =
           [(''dense.weight'', 116),
            (''dense.bias'', 117),
            (''sequential.0.weight'', 116),
            (''sequential.0.bias'', 117)],
         output =
           [(''dense.weight'', 118),
            (''dense.bias'', 119),
            (''LayerNorm.weight'', 120),
            (''LayerNorm.bias'', 121)],
         crossattention = []\<rparr>,
         \<lparr>attention =
           [(''self.W'', 122),
            (''self.query.weight'', 123),
            (''self.query.bias'', 124),
            (''self.key.weight'', 125),
            (''self.key.bias'', 126),
            (''self.value.weight'', 127),
            (''self.value.bias'', 128),
            (''output.dense.weight'', 129),
            (''output.dense.bias'', 130),
            (''output.LayerNorm.weight'', 131),
            (''output.LayerNorm.bias'', 132)],
         intermediate =
           [(''dense.weight'', 133),
            (''dense.bias'', 134),
            (''sequential.0.weight'', 133),
            (''sequential.0.bias'', 134)],
         output =
           [(''dense.weight'', 135),
            (''dense.bias'', 136),
            (''LayerNorm.weight'', 137),
            (''LayerNorm.bias'', 138)],
         crossattention = []\<rparr>],
      transfer_mode = ''OD''\<rparr>"

definition ex_type_store :: "int store" where
  "ex_type_store =
     map_of
       [(0, T2 [[1000, 1001], [1002, 1003]]),
        (1, T2 [[1004, 1005]]),
        (2, T2 [[1006, 1007]]),
        (3, T1 [1008, 1009]),
        (4, T1 [1010, 1011]),
        (5, T2 [[1012]]),
        (6, T2 [[1013, 1014], [1015, 1016]]),
        (7, T2 [[1017, 1018], [1019, 1020]]),
        (8, T1 [1021, 1022]),
        (9, T2 [[1023, 1024], [1025, 1026]]),
        (10, T1 [1027, 1028]),
        (11, T2 [[1029, 1030], [1031, 1032]]),
        (12, T1 [1033, 1034]),
        (13, T2 [[1035, 1036], [1037, 1038]]),
        (14, T1 [1039, 1040]),
        (15, T1 [1041, 1042]),
        (16, T1 [1043, 1044]),
        (17, T2 [[1045, 1046], [1047, 1048]]),
        (18, T1 [1049, 1050]),
        (19, T2 [[1051, 1052], [1053, 1054]]),
        (20, T1 [1055, 1056]),
        (21, T1 [1057, 1058]),
        (22, T1 [1059, 1060]),
        (23, T2 [[1061, 1062], [1063, 1064]]),
        (24, T2 [[1065, 1066], [1067, 1068]]),
        (25, T1 [1069, 1070]),
        (26, T2 [[1071, 1072], [1073, 1074]]),
        (27, T1 [1075, 1076]),
        (28, T2 [[1077, 1078], [1079, 1080]]),
        (29, T1 [1081, 1082]),
        (30, T2 [[1083, 1084], [1085, 1086]]),
        (31, T1 [1087, 1088]),
        (32, T1 [1089, 1090]),
        (33, T1 [1091, 1092]),
        (34, T2 [[1093, 1094], [1095, 1096]]),
        (35, T1 [1097, 1098]),
        (36, T2 [[1099, 1100], [1101, 1102]]),
        (37, T1 [1103, 1104]),
        (38, T1 [1105, 1106]),
        (39, T1 [1107, 1108]),
        (100, T2 [[5000, 5001], [5002, 5003]]),
        (101, T2 [[5004, 5005]]),
        (102, T2 [[5006, 5007]]),
        (103, T1 [5008, 5009]),
        (104, T1 [5010, 5011]),
        (105, T2 [[5012]]),
        (106, T2 [[5013, 5014], [5015, 5016]]),
        (107, T1 [5017, 5018]),
        (108, T2 [[5019, 5020], [5021, 5022]]),
        (109, T1 [5023, 5024]),
        (110, T2 [[5025, 5026], [5027, 5028]]),
        (111, T1 [5029, 5030]),
        (112, T2 [[5031, 5032], [5033, 5034]]),
        (113, T1 [5035, 5036]),
        (114, T1 [5037, 5038]),
        (115, T1 [5039, 5040]),
        (116, T2 [[5041, 5042], [5043, 5044]]),
        (117, T1 [5045, 5046]),
        (118, T2 [[5047, 5048], [5049, 5050]]),
        (119, T1 [5051, 5052]),
        (120, T1 [5053, 5054]),
        (121, T1 [5055, 5056]),
        (122, T2 [[5057, 5058], [5059, 5060]]),
        (123, T2 [[5061, 5062], [5063, 5064]]),
        (124, T1 [5065, 5066]),
        (125, T2 [[5067, 5068], [5069, 5070]]),
        (126, T1 [5071, 5072]),
        (127, T2 [[5073, 5074], [5075, 5076]]),
        (128, T1 [5077, 5078]),
        (129, T2 [[5079, 5080], [5081, 5082]]),
        (130, T1 [5083, 5084]),
        (131, T1 [5085, 5086]),
        (132, T1 [5087, 5088]),
        (133, T2 [[5089, 5090], [5091, 5092]]),
        (134, T1 [5093, 5094]),
        (135, T2 [[5095, 5096], [5097, 5098]]),
        (136, T1 [5099, 5100]),
        (137, T1 [5101, 5102]),
        (138, T1 [5103, 5104])]"


text \<open>Two heterogeneous models of one layer with two heads of size 2: the target has two
  bilinear heads, the source a spectral head and a bilinear head.\<close>

definition ex_wma_target :: model where
  "ex_wma_target =
     \<lparr>model_config =
       \<lparr>from_model_dict_hetero = True, num_hidden_layers = 1,
        hidden_dim_list = [2],
        attention_heads_list = [HeadList [''sa_wma_2'', ''sa_wma_2'']],
        attention_type = [],
        similarity_list = [],
        ff_dim_list = [[2]], has_embedding_size = False\<rparr>,
      embeddings =
        [(''word_embeddings.weight'', 0),
         (''position_embeddings.weight'', 1),
         (''token_type_embeddings.weight'', 2),
         (''LayerNorm.weight'', 3),
         (''LayerNorm.bias'', 4),
         (''position_ids'', 5)],
      encoder =
        [\<lparr>attention =
           [(''self.W0'', 6),
            (''self.W1'', 7),
            (''self.query.weight'', 8),
            (''self.query.bias'', 9),
            (''self.key.weight'', 10),
            (''self.key.bias'', 11),
            (''self.value.weight'', 12),
            (''self.value.bias'', 13),
            (''self.distance_embedding.weight'', 14),
            (''output.dense.weight'', 15),
            (''output.dense.bias'', 16),
            (''output.LayerNorm.weight'', 17),
            (''output.LayerNorm.bias'', 18)],
         intermediate =
           [(''dense.weight'', 19),
            (''dense.bias'', 20),
            (''sequential.0.weight'', 19),
            (''sequential.0.bias'', 20)],
         output =
           [(''dense.weight'', 21),
            (''dense.bias'', 22),
            (''LayerNorm.weight'', 23),
            (''LayerNorm.bias'', 24)],
         crossattention = []\<rparr>],
      transfer_mode = ''OD''\<rparr>"

definition ex_wma_source :: model where
  "ex_wma_source =
     \<lparr>model_config =
       \<lparr>from_model_dict_hetero = True, num_hidden_layers = 1,
        hidden_dim_list = [2],
        attention_heads_list = [HeadList [''l_dft_2'', ''sa_wma_2'']],
        attention_type = [],
        similarity_list = [],
        ff_dim_list = [[2]], has_embedding_size = False\<rparr>,
      embeddings =
        [(''word_embeddings.weight'', 100),
         (''position_embeddings.weight'', 101),
         (''token_type_embeddings.weight'', 102),
         (''LayerNorm.weight'', 103),
         (''LayerNorm.bias'', 104),
         (''position_ids'', 105)],
      encoder =
        [\<lparr>attention =
           [(''self.W0'', 106),
            (''self.query.weight'', 107),
            (''self.query.bias'', 108),
            (''self.key.weight'', 109),
            (''self.key.bias'', 110),
            (''self.value.weight'', 111),
            (''self.value.bias'', 112),
            (''self.distance_embedding.weight'', 113),
            (''output.dense.weight'', 114),
            (''output.dense.bias'', 115),
            (''output.LayerNorm.weight'', 116),
            (''output.LayerNorm.bias'', 117)],
         intermediate =
           [(''dense.weight'', 118),
            (''dense.bias'', 119),
            (''sequential.0.weight'', 118),
            (''sequential.0.bias'', 119)],
         output =
           [(''dense.weight'', 120),
            (''dense.bias'', 121),
            (''LayerNorm.weight'', 122),
            (''LayerNorm.bias'', 123)],
         crossattention = []\<rparr>],
      transfer_mode = ''OD''\<rparr>"

definition ex_wma_store :: "int store" where
  "ex_wma_store =
     map_of
       [(0, T2 [[1000, 1001], [1002, 1003]]),
        (1, T2 [[1004, 1005]]),
        (2, T2 [[1006, 1007]]),
        (3, T1 [1008, 1009]),
        (4, T1 [1010, 1011]),
        (5, T2 [[1012]]),
        (6, T2 [[1013, 1014], [1015, 1016]]),
        (7, T2 [[1017, 1018], [1019, 1020]]),
        (8, T2 [[1021, 1022], [1023, 1024], [1025, 1026], [1027, 1028]]),
        (9, T1 [1029, 1030, 1031, 1032]),
        (10, T2 [[1033, 1034], [1035, 1036], [1037, 1038], [1039, 1040]]),
        (11, T1 [1041, 1042, 1043, 1044]),
        (12, T2 [[1045, 1046], [1047, 1048], [1049, 1050], [1051, 1052]]),
        (13, T1 [1053, 1054, 1055, 1056]),
        (14, T2 [[1057, 1058]]),
        (15, T2 [[1059, 1060, 1061, 1062], [1063, 1064, 1065, 1066]]),
        (16, T1 [1067, 1068]),
        (17, T1 [1069, 1070]),
        (18, T1 [1071, 1072]),
        (19, T2 [[1073, 1074], [1075, 1076]]),
        (20, T1 [1077, 1078]),
        (21, T2 [[1079, 1080], [1081, 1082]]),
        (22, T1 [1083, 1084]),
        (23, T1 [1085, 1086]),
        (24, T1 [1087, 1088]),
        (100, T2 [[5000, 5001], [5002, 5003]]),
        (101, T2 [[5004, 5005]]),
        (102, T2 [[5006, 5007]]),
        (103, T1 [5008, 5009]),
        (104, T1 [5010, 5011]),
        (105, T2 [[5012]]),
        (106, T2 [[5013, 5014], [5015, 5016]]),
        (107, T2 [[5017, 5018], [5019, 5020], [5021, 5022], [5023, 5024]]),
        (108, T1 [5025, 5026, 5027, 5028]),
        (109, T2 [[5029, 5030], [5031, 5032], [5033, 5034], [5035, 5036]]),
        (110, T1 [5037, 5038, 5039, 5040]),
        (111, T2 [[5041, 5042], [5043, 5044], [5045, 5046], [5047, 5048]]),
        (112, T1 [5049, 5050, 5051, 5052]),
        (113, T2 [[5053, 5054]]),
        (114, T2 [[5055, 5056, 5057, 5058], [5059, 5060, 5061, 5062]]),
        (115, T1 [5063, 5064]),
        (116, T1 [5065, 5066]),
        (117, T1 [5067, 5068]),
        (118, T2 [[5069, 5070], [5071, 5072]]),
        (119, T1 [5073, 5074]),
        (120, T2 [[5075, 5076], [5077, 5078]]),
        (121, T1 [5079, 5080]),
        (122, T1 [5081, 5082]),
        (123, T1 [5083, 5084])]"












section \<open>Properties of the constructors and of the forward passes\<close>











lemma head_scores_known:
  assumes "head_scores m q kl h wc = Inr (e, wc')" "known_head m h"
  shows "e \<noteq> None \<and>
     (ha_attention_types m ! h = ''l'' \<or> ha_attention_types m ! h = ''c'' \<longrightarrow>
        e = Some (zeros3 (size0 q) (size2 q) (size2 q)))"
  using assms
  by (auto simp: head_scores_def known_head_def then_do_def nth_err_def
           split: sum.splits if_splits)

text \<open>When every head has a tag the loop handles, the loop appends one entry per head, and
  the entry of a spectral or convolutional head is the block of zeros.\<close>

lemma scores_loop_entries:
  assumes "scores_loop m q kl hs wc = Inr es" "list_all (known_head m) hs"
  shows "length es = length hs \<and>
     (\<forall>i<length hs.
        ha_attention_types m ! (hs ! i) = ''l'' \<or> ha_attention_types m ! (hs ! i) = ''c'' \<longrightarrow>
        es ! i = zeros3 (size0 q) (size2 q) (size2 q))"
  using assms
proof (induction hs arbitrary: wc es)
  case Nil
  then show ?case by simp
next
  case (Cons h hs)
  from Cons.prems(1) obtain e wc' es' where
    hd: "head_scores m q kl h wc = Inr (e, wc')" and
    tl: "scores_loop m q kl hs wc' = Inr es'" and
    es: "es = (case e of None \<Rightarrow> es' | Some s \<Rightarrow> s # es')"
    by (auto simp: then_do_def split: sum.splits)
  from Cons.prems(2) have kh: "known_head m h" and khs: "list_all (known_head m) hs"
    by auto
  from head_scores_known[OF hd kh] obtain s where e: "e = Some s" and
    z: "ha_attention_types m ! h = ''l'' \<or> ha_attention_types m ! h = ''c'' \<longrightarrow>
        s = zeros3 (size0 q) (size2 q) (size2 q)" by auto
  from Cons.IH[OF tl khs] have ih: "length es' = length hs"
    "\<forall>i<length hs.
        ha_attention_types m ! (hs ! i) = ''l'' \<or> ha_attention_types m ! (hs ! i) = ''c'' \<longrightarrow>
        es' ! i = zeros3 (size0 q) (size2 q) (size2 q)" by auto
  show ?case
  proof (intro conjI allI impI)
    show "length es = length (h # hs)" using es e ih by simp
  next
    fix i assume "i < length (h # hs)"
      and "ha_attention_types m ! ((h # hs) ! i) = ''l'' \<or>
           ha_attention_types m ! ((h # hs) ! i) = ''c''"
    then show "es ! i = zeros3 (size0 q) (size2 q) (size2 q)"
      using es e z ih by (cases i) auto
  qed
qed

lemma stack_dim1_Inr:
  assumes "stack_dim1 ts = Inr x"
  shows "ts \<noteq> [] \<and> length x = length (hd ts) \<and> list_all (\<lambda>u. same_shape3 u (hd ts)) ts \<and>
         (\<forall>b<length (hd ts). x ! b = map (\<lambda>u. u ! b) ts)"
proof -
  from assms obtain t ts' where ts: "ts = t # ts'"
    and a: "list_all (\<lambda>u. same_shape3 u t) ts'"
    and x: "x = map (\<lambda>b. map (\<lambda>u. u ! b) ts) [0..<length t]"
    by (auto simp: stack_dim1_def split: list.splits if_splits)
  have "same_shape3 t t" by (simp add: same_shape3_def list_all2_conv_all_nth)
  then show ?thesis using ts a x by simp
qed

lemma same_shape3_zeros:
  assumes "same_shape3 u t" "same_shape3 (zeros3 B L R) t" "b < B"
  shows "length u = B \<and> length (u ! b) = L \<and> list_all (\<lambda>r. length r = R) (u ! b)"
proof -
  from assms(2) have lt: "length t = B"
    by (auto simp: same_shape3_def zeros3_def list_all2_conv_all_nth)
  from assms(2,3) lt have tb: "length (t ! b) = L" "\<forall>i<L. length (t ! b ! i) = R"
    by (auto simp: same_shape3_def zeros3_def list_all2_conv_all_nth)
  from assms(1) lt have lu: "length u = B"
    by (auto simp: same_shape3_def list_all2_conv_all_nth)
  from assms(1,3) lu tb have "length (u ! b) = L" "\<forall>i<L. length (u ! b ! i) = R"
    by (auto simp: same_shape3_def list_all2_conv_all_nth)
  then show ?thesis using lu by (auto simp: list_all_length)
qed

text \<open>
  Claim C9. In a heterogeneous layer whose heads all carry a tag of the score loop, when
  \<^verbatim>\<open>forward\<close> returns, every spectral (\<^verbatim>\<open>l\<close>) and convolutional (\<^verbatim>\<open>c\<close>)
  head \<open>h\<close> contributes the all-zero \<^verbatim>\<open>[seq, seq]\<close> matrix to the stacked raw scores
  of every batch entry, the stacked tensor has one entry per head, and the entries of all
  heads, whatever their type, have that same \<^verbatim>\<open>[seq, seq]\<close> shape (\<open>seq\<close> the
  sequence length of the query tensor).
\<close>

theorem hetero_zero_score_placeholder:
  assumes run: "BertHeteroAttentionModular_forward m rest hidden_states encoder_hidden_states
                  past_key_value = Inr out"
    and known: "list_all (known_head m) [0..<ha_num_attention_heads m]"
    and h: "h < ha_num_attention_heads m"
    and ty: "ha_attention_types m ! h = ''l'' \<or> ha_attention_types m ! h = ''c''"
  shows "length (attention_scores out) = size0 (ha_query m hidden_states) \<and>
    (\<forall>b<size0 (ha_query m hidden_states).
       length (attention_scores out ! b) = ha_num_attention_heads m \<and>
       attention_scores out ! b ! h =
         replicate (size2 (ha_query m hidden_states))
           (replicate (size2 (ha_query m hidden_states)) 0) \<and>
       (\<forall>h'<ha_num_attention_heads m.
          length (attention_scores out ! b ! h') = size2 (ha_query m hidden_states) \<and>
          list_all (\<lambda>r. length r = size2 (ha_query m hidden_states))
            (attention_scores out ! b ! h')))"
proof -
  define q where "q = ha_query m hidden_states"
  define B where "B = size0 q"
  define L where "L = size2 q"
  define H where "H = ha_num_attention_heads m"
  from run obtain kl vl es where
    loop: "scores_loop m q kl [0..<H] 0 = Inr es" and
    st: "stack_dim1 es = Inr (attention_scores out)"
    by (auto simp: BertHeteroAttentionModular_forward_def then_do_def Let_def q_def H_def
             split: sum.splits prod.splits)
  from scores_loop_entries[OF loop] known
  have len: "length es = H" and
    z: "\<forall>i<H. ha_attention_types m ! i = ''l'' \<or> ha_attention_types m ! i = ''c'' \<longrightarrow>
        es ! i = zeros3 B L L"
    by (auto simp: H_def B_def L_def)
  from z h ty have zh: "es ! h = zeros3 B L L" unfolding H_def by blast
  from stack_dim1_Inr[OF st] have ne: "es \<noteq> []"
    and lx: "length (attention_scores out) = length (hd es)"
    and sh: "list_all (\<lambda>u. same_shape3 u (hd es)) es"
    and xb: "\<forall>b<length (hd es). attention_scores out ! b = map (\<lambda>u. u ! b) es" by auto
  from sh len h have shh: "same_shape3 (zeros3 B L L) (hd es)"
    using zh by (auto simp: list_all_length H_def)
  then have lhd: "length (hd es) = B"
    by (auto simp: same_shape3_def zeros3_def list_all2_conv_all_nth)
  have each: "\<forall>h'<H. \<forall>b<B. length (es ! h') = B \<and> length (es ! h' ! b) = L \<and>
                 list_all (\<lambda>r. length r = L) (es ! h' ! b)"
  proof (intro allI impI)
    fix h' b assume "h' < H" "b < B"
    then have "same_shape3 (es ! h') (hd es)" using sh len by (simp add: list_all_length)
    from same_shape3_zeros[OF this shh \<open>b < B\<close>]
    show "length (es ! h') = B \<and> length (es ! h' ! b) = L \<and>
          list_all (\<lambda>r. length r = L) (es ! h' ! b)" .
  qed
  show ?thesis
    unfolding q_def[symmetric] B_def[symmetric] L_def[symmetric] H_def[symmetric]
  proof (intro conjI allI impI)
    show "length (attention_scores out) = B" using lx lhd by simp
  next
    fix b assume b: "b < B"
    show "length (attention_scores out ! b) = H" using xb b lhd len by simp
    show "attention_scores out ! b ! h = replicate L (replicate L 0)"
      using xb b lhd len h zh by (simp add: H_def zeros3_def)
    fix h' assume h': "h' < H"
    show "length (attention_scores out ! b ! h') = L" using xb b lhd len h' each by simp
    show "list_all (\<lambda>r. length r = L) (attention_scores out ! b ! h')"
      using xb b lhd len h' each by simp
  qed
qed

lemma ex_hetero_run:
  "BertHeteroAttentionModular_forward ex_hetero (\<lambda>q k v s. ()) () None None =
     Inr \<lparr>key_layer = [[[[5, 6]], [[7, 8]], [[9, 10]]]],
          value_layer = [[[[1, 1]], [[1, 1]], [[1, 1]]]],
          attention_scores = [[[[29]], [[0]], [[0]]]], outputs = (),
          present_key_value =
            Some ([[[[5, 6]], [[7, 8]], [[9, 10]]]], [[[[1, 1]], [[1, 1]], [[1, 1]]]])\<rparr>"
  by code_simp

lemma ex_hetero_known: "list_all (known_head ex_hetero) [0..<ha_num_attention_heads ex_hetero]"
  by code_simp

theorem hetero_zero_score_placeholder_witness:
  "BertHeteroAttentionModular_forward ex_hetero (\<lambda>q k v s. ()) () None None =
     Inr \<lparr>key_layer = [[[[5, 6]], [[7, 8]], [[9, 10]]]],
          value_layer = [[[[1, 1]], [[1, 1]], [[1, 1]]]],
          attention_scores = [[[[29]], [[0]], [[0]]]], outputs = (),
          present_key_value =
            Some ([[[[5, 6]], [[7, 8]], [[9, 10]]]], [[[[1, 1]], [[1, 1]], [[1, 1]]]])\<rparr> \<and>
   list_all (known_head ex_hetero) [0..<ha_num_attention_heads ex_hetero] \<and>
   (2::nat) < ha_num_attention_heads ex_hetero \<and>
   ha_attention_types ex_hetero ! 2 = ''c'' \<and>
   size0 (ha_query ex_hetero ()) = 1 \<and> size2 (ha_query ex_hetero ()) = 1 \<and>
   [[[[29]], [[0]], [[0 :: int]]]] ! 0 ! 2 = replicate 1 (replicate 1 0)"
proof -
  have h: "(2::nat) < ha_num_attention_heads ex_hetero" by (simp add: ex_hetero_def)
  have ty: "ha_attention_types ex_hetero ! 2 = ''l'' \<or> ha_attention_types ex_hetero ! 2 = ''c''"
    by (simp add: ex_hetero_def)
  have sz: "size0 (ha_query ex_hetero ()) = 1" "size2 (ha_query ex_hetero ()) = 1"
    by (simp_all add: ex_hetero_def size0_def size2_def)
  from hetero_zero_score_placeholder[OF ex_hetero_run ex_hetero_known h ty]
  have "[[[[29]], [[0]], [[0 :: int]]]] ! 0 ! 2 = replicate 1 (replicate 1 0)"
    by (simp add: sz)
  then show ?thesis using ex_hetero_run ex_hetero_known h sz
    by (simp add: ex_hetero_def)
qed








section \<open>Properties of the weight transfer\<close>

subsection \<open>The bilinear heads\<close>


lemma then_do_isl2: "(\<And>v. x = Inr v \<Longrightarrow> isl (f v)) \<Longrightarrow> isl (then_do x f)"
  by (cases x) (auto simp: then_do_def)






lemma map_err_length: "map_err f xs = Inr ys \<Longrightarrow> length ys = length xs"
  by (induction xs arbitrary: ys) (auto simp: then_do_def split: sum.splits)











text \<open>
  Claim C4 fails on the code. In the example the head 0 of the target is a bilinear
  self-attention head and the head 0 of the source a spectral head; the head 1 is bilinear
  on both sides. The matrix \<^verbatim>\<open>W0\<close> of the target belongs to its head 0 (the
  constructor and \<^verbatim>\<open>forward\<close> number the matrices by the bilinear heads in order).
  The round of head 1 still has \<^verbatim>\<open>wma_count = 0\<close>, because the round of the
  mismatched head 0 did not count, and binds \<^verbatim>\<open>W0\<close> of the target to the matrix of
  the source's head 1: the parameter of the mismatched head changes.
\<close>

theorem mismatched_head_bilinear_overwritten:
  "descriptors (model_config ex_wma_target) 0 = Inr [''sa_wma_2'', ''sa_wma_2''] \<and>
   descriptors (model_config ex_wma_source) 0 = Inr [''l_dft_2'', ''sa_wma_2''] \<and>
   head_field ''sa_wma_2'' 0 = Inr ''sa'' \<and> head_field ''l_dft_2'' 0 = Inr ''l'' \<and>
   param ex_wma_store ex_wma_target (Attention 0) ''self.W0'' =
     Inr (T2 [[1013, 1014], [1015, 1016]]) \<and>
   param_after (load_model_from_source ex_rp ex_wma_store ex_wma_target ex_wma_source False)
     (Attention 0) ''self.W0'' = Inr (T2 [[5013, 5014], [5015, 5016]]) \<and>
   param_after (load_model_from_source ex_rp ex_wma_store ex_wma_target ex_wma_source False)
     (Attention 0) ''self.W1'' = Inr (T2 [[1017, 1018], [1019, 1020]])"
  by code_simp

text \<open>
  Claim C6 fails on the code. With equal head sizes the bilinear matrix is not copied:
  \<^verbatim>\<open>setattr\<close> binds the target's attribute to the parameter object of the source.
  After the call the target's \<^verbatim>\<open>W0\<close> and the source's \<^verbatim>\<open>W0\<close> are one object
  (address 106), so an in-place update of the target's matrix is an update of the
  source's.
\<close>

theorem target_shares_source_parameter:
  "param_addr ex_wma_source (Attention 0) ''self.W0'' = Inr 106 \<and>
   addr_after (load_model_from_source ex_rp ex_wma_store ex_wma_target ex_wma_source False)
     (Attention 0) ''self.W0'' = Inr 106 \<and>
   other_param_after
     (load_model_from_source ex_rp ex_wma_store ex_wma_target ex_wma_source False)
     ex_wma_source (Attention 0) ''self.W0'' = Inr (T2 [[5013, 5014], [5015, 5016]]) \<and>
   other_param_after
     (update_after
        (load_model_from_source ex_rp ex_wma_store ex_wma_target ex_wma_source False)
        (Attention 0) ''self.W0'' (T2 [[0, 0], [0, 0]]))
     ex_wma_source (Attention 0) ''self.W0'' = Inr (T2 [[0, 0], [0, 0]])"
  by code_simp

section \<open>Footprints of the commands\<close>

lemma in_layer_entries:
  "(p, n, a) \<in> set (layer_entries (i, l)) \<longleftrightarrow>
     (p = Attention i \<and> (n, a) \<in> set (attention l)) \<or>
     (p = Intermediate i \<and> (n, a) \<in> set (intermediate l)) \<or>
     (p = Output i \<and> (n, a) \<in> set (output l))"
  by (auto simp: layer_entries_def)

lemma in_entries_cases:
  "(p, n, a) \<in> set (entries m) \<longleftrightarrow>
     (p = Embeddings \<and> (n, a) \<in> set (embeddings m)) \<or>
     (\<exists>i < length (encoder m). (p, n, a) \<in> set (layer_entries (i, encoder m ! i)))"
proof -
  have "(\<exists>x \<in> set (enumerate 0 (encoder m)). (p, n, a) \<in> set (layer_entries x)) \<longleftrightarrow>
        (\<exists>i < length (encoder m). (p, n, a) \<in> set (layer_entries (i, encoder m ! i)))"
    by (force simp: in_set_enumerate_eq)
  then show ?thesis unfolding entries_def by auto
qed

lemma in_entries:
  "(p, n, a) \<in> set (entries m) \<longleftrightarrow> (\<exists>reg. registry m p = Inr reg \<and> (n, a) \<in> set reg)"
  unfolding in_entries_cases in_layer_entries
  by (cases p) (auto simp: registry_def then_do_def nth_err_def)

lemma in_owned:
  "a \<in> set (owned m F) \<longleftrightarrow> (\<exists>p n reg. registry m p = Inr reg \<and> (n, a) \<in> set reg \<and> F p n)"
proof -
  have "a \<in> set (owned m F) \<longleftrightarrow> (\<exists>p n. (p, n, a) \<in> set (entries m) \<and> F p n)"
    by (force simp: owned_def)
  then show ?thesis by (auto simp: in_entries)
qed

lemma stable_refl: "stable m m"
  by (simp add: stable_def layer_stable_def list_all2_refl)

lemma layer_stable_trans: "layer_stable a b \<Longrightarrow> layer_stable b c \<Longrightarrow> layer_stable a c"
  by (simp add: layer_stable_def)

lemma stable_trans: "stable a b \<Longrightarrow> stable b c \<Longrightarrow> stable a c"
  unfolding stable_def
  by (auto elim: list_all2_trans[rotated] intro: layer_stable_trans)






lemma frames_skip: "frames F skip"
  by (simp add: frames_def only_at_def skip_def stable_refl)

lemma frames_raise: "frames F (raise e)"
  by (simp add: frames_def raise_def)

lemma frames_seq:
  assumes "frames F c" "frames F d"
  shows "frames F (seq c d)"
  unfolding frames_def only_at_def
proof (intro allI impI)
  fix st st' assume "seq c d st = Inr st'"
  then obtain st1 where c: "c st = Inr st1" and d: "d st1 = Inr st'"
    by (auto simp: seq_def then_do_def split: sum.splits)
  from assms(1) c have s1: "stable (self st) (self st1)"
    and o1: "set (owned (self st1) F) \<subseteq> set (owned (self st) F)"
    and f1: "\<And>a. a \<notin> set (owned (self st) F) \<Longrightarrow> store st1 a = store st a"
    by (auto simp: frames_def only_at_def)
  from assms(2) d have s2: "stable (self st1) (self st')"
    and o2: "set (owned (self st') F) \<subseteq> set (owned (self st1) F)"
    and f2: "\<And>a. a \<notin> set (owned (self st1) F) \<Longrightarrow> store st' a = store st1 a"
    by (auto simp: frames_def only_at_def)
  have "store st' a = store st a" if "a \<notin> set (owned (self st) F)" for a
    using that o1 f1[of a] f2[of a] by auto
  then show "stable (self st) (self st') \<and>
        set (owned (self st') F) \<subseteq> set (owned (self st) F) \<and>
        (\<forall>a. a \<notin> set (owned (self st) F) \<longrightarrow> store st' a = store st a)"
    using stable_trans[OF s1 s2] o1 o2 by blast
qed

lemma frames_block:
  assumes "list_all (frames F) cs"
  shows "frames F (block cs)"
  using assms
  by (induction cs) (auto intro: frames_skip frames_seq)

lemma frames_with_val: "(\<And>v. x = Inr v \<Longrightarrow> frames F (f v)) \<Longrightarrow> frames F (with_val x f)"
  by (cases x) (auto simp: frames_def with_val_def then_do_def)


lemma frames_assign_to:
  assumes "F p name"
  shows "frames F (assign_to p name sls v)"
  unfolding frames_def only_at_def
proof (intro allI impI)
  fix st st' assume a: "assign_to p name sls v st = Inr st'"
  then obtain ad t' where ad: "param_addr (self st) p name = Inr ad"
    and st': "st' = st\<lparr>store := (store st)(ad \<mapsto> t')\<rparr>"
    by (auto simp: assign_to_def then_do_def split: sum.splits)
  from ad obtain reg where "registry (self st) p = Inr reg" "(name, ad) \<in> set reg"
    by (auto simp: param_addr_def then_do_def getattr_def or_raise_def
             split: sum.splits option.splits dest: map_of_SomeD)
  then have "ad \<in> set (owned (self st) F)" using assms by (auto simp: in_owned)
  then show "stable (self st) (self st') \<and>
        set (owned (self st') F) \<subseteq> set (owned (self st) F) \<and>
        (\<forall>a. a \<notin> set (owned (self st) F) \<longrightarrow> store st' a = store st a)"
    using st' by (auto simp: stable_refl)
qed

lemma frames_fitted: "frames F fitted"
  by (auto simp: frames_def only_at_def fitted_def stable_refl)

lemma frames_assign_rp:
  assumes "F p name"
  shows "frames F (assign_rp p name sls v)"
  unfolding assign_rp_def
  by (rule frames_seq[OF frames_assign_to[of F p name, OF assms] frames_fitted])

lemma write_all_other: "a \<notin> fst ` set ws \<Longrightarrow> write_all ws s a = s a"
  unfolding write_all_def
  by (induction ws arbitrary: s) (auto split: prod.splits)

lemma map_err_fst:
  "map_err (load_entry s sd) own = Inr ws \<Longrightarrow> map fst ws = map snd own"
proof (induction own arbitrary: ws)
  case Nil
  then show ?case by simp
next
  case (Cons e own)
  then show ?case
    by (auto simp: then_do_def load_entry_def split: sum.splits prod.splits option.splits if_splits)
qed

lemma submodule_mem:
  "(n', a) \<in> set (submodule reg pre) \<Longrightarrow> \<exists>n. (n, a) \<in> set reg \<and> take (length pre) n = pre"
  by (auto simp: submodule_def)

lemma frames_load_state_dict:
  assumes "\<And>n. take (length pre) n = pre \<Longrightarrow> F p n"
  shows "frames F (load_state_dict source p pre)"
  unfolding frames_def only_at_def
proof (intro allI impI)
  fix st st' assume a: "load_state_dict source p pre st = Inr st'"
  then obtain own sd ws where own: "get_module (self st) p pre = Inr own"
    and ws: "map_err (load_entry (store st) sd) own = Inr ws"
    and st': "st' = st\<lparr>store := write_all ws (store st)\<rparr>"
    by (auto simp: load_state_dict_def then_do_def split: sum.splits if_splits)
  from own obtain reg where reg: "registry (self st) p = Inr reg" and o: "own = submodule reg pre"
    by (auto simp: get_module_def then_do_def split: sum.splits if_splits)
  have "fst ` set ws \<subseteq> set (owned (self st) F)"
  proof
    fix ad assume "ad \<in> fst ` set ws"
    then have "ad \<in> set (map fst ws)" by simp
    then have "ad \<in> snd ` set own" using map_err_fst[OF ws] by simp
    then obtain n' where "(n', ad) \<in> set (submodule reg pre)" using o by auto
    from submodule_mem[OF this] obtain n where "(n, ad) \<in> set reg" "take (length pre) n = pre"
      by blast
    then show "ad \<in> set (owned (self st) F)" using reg assms by (auto simp: in_owned)
  qed
  then show "stable (self st) (self st') \<and>
        set (owned (self st') F) \<subseteq> set (owned (self st) F) \<and>
        (\<forall>a. a \<notin> set (owned (self st) F) \<longrightarrow> store st' a = store st a)"
    using st' write_all_other[of _ ws "store st"] by (simp add: stable_refl) blast
qed

lemma frames_count_state_dict: "frames F (count_state_dict source p pre)"
  by (auto simp: frames_def only_at_def count_state_dict_def then_do_def stable_refl split: sum.splits)






lemma only_at_refl: "only_at F st st"
  by (simp add: only_at_def stable_refl)


lemma framesD: "frames F c \<Longrightarrow> c st = Inr st' \<Longrightarrow> only_at F st st'"
  by (simp add: frames_def)

lemma framesI: "(\<And>st st'. c st = Inr st' \<Longrightarrow> only_at F st st') \<Longrightarrow> frames F c"
  by (simp add: frames_def)



lemma other_loc_simps [simp]:
  "other_loc Embeddings n" "other_loc (Intermediate i) n" "other_loc (Output i) n"
  "other_loc (Attention i) n \<longleftrightarrow> n \<notin> set qkv_names \<and> \<not> W_name n"
  by (simp_all add: other_loc_def qkv_loc_def W_loc_def)

lemma other_distance [simp]:
  "n \<notin> set qkv_names \<and> \<not> W_name n" if "n = ''self.distance_embedding.'' @ r"
  using that by (simp add: qkv_names_def W_name_def)

lemma other_output [simp]:
  "n \<notin> set qkv_names \<and> \<not> W_name n" if "n = ''output.'' @ r"
  using that by (simp add: qkv_names_def W_name_def)

lemma other_key_conv [simp]:
  "n \<notin> set qkv_names \<and> \<not> W_name n" if "n = ''self.key_conv_attn_layer'' @ r"
  using that by (simp add: qkv_names_def W_name_def)

lemma other_conv_kernel [simp]:
  "n \<notin> set qkv_names \<and> \<not> W_name n" if "n = ''self.conv_kernel_layer'' @ r"
  using that by (simp add: qkv_names_def W_name_def)

lemma other_conv_out [simp]:
  "n \<notin> set qkv_names \<and> \<not> W_name n" if "n = ''self.conv_out_layer'' @ r"
  using that by (simp add: qkv_names_def W_name_def)

















lemma param_addr_owned:
  assumes "param_addr m p n = Inr a" "F p n"
  shows "a \<in> set (owned m F)"
proof -
  from assms(1) obtain reg where "registry m p = Inr reg" "(n, a) \<in> set reg"
    by (auto simp: param_addr_def then_do_def getattr_def or_raise_def
             split: sum.splits option.splits dest: map_of_SomeD)
  then show ?thesis using assms(2) by (auto simp: in_owned)
qed


lemma keeps_skip: "keeps_self skip"
  by (simp add: keeps_self_def skip_def)

lemma keeps_seq: "keeps_self c \<Longrightarrow> keeps_self d \<Longrightarrow> keeps_self (seq c d)"
  unfolding keeps_self_def seq_def then_do_def
  by (auto split: sum.splits)

lemma keeps_block: "list_all keeps_self cs \<Longrightarrow> keeps_self (block cs)"
  by (induction cs) (auto intro: keeps_skip keeps_seq)

lemma keeps_with_val: "(\<And>v. x = Inr v \<Longrightarrow> keeps_self (f v)) \<Longrightarrow> keeps_self (with_val x f)"
  by (cases x) (auto simp: keeps_self_def with_val_def then_do_def)

lemma keeps_assign_to: "keeps_self (assign_to p name sls v)"
  by (auto simp: keeps_self_def assign_to_def then_do_def split: sum.splits)

lemma keeps_fitted: "keeps_self fitted"
  by (auto simp: keeps_self_def fitted_def)

lemma keeps_assign_rp: "keeps_self (assign_rp p name sls v)"
  unfolding assign_rp_def by (intro keeps_seq keeps_assign_to keeps_fitted)

lemma keeps_load_state_dict: "keeps_self (load_state_dict source p pre)"
  by (auto simp: keeps_self_def load_state_dict_def then_do_def split: sum.splits if_splits)

lemma keeps_count_state_dict: "keeps_self (count_state_dict source p pre)"
  by (auto simp: keeps_self_def count_state_dict_def then_do_def split: sum.splits)

lemma keeps_load_embeddings: "keeps_self (load_embeddings rp source tc sc mode)"
  unfolding load_embeddings_def Let_def
  by (intro keeps_with_val)
     (auto intro!: keeps_seq keeps_skip keeps_assign_to keeps_assign_rp keeps_load_state_dict
        keeps_count_state_dict)

lemma keeps_homo_layer: "keeps_self (homo_layer source tc sc n i)"
  unfolding homo_layer_def
  by (intro keeps_with_val)
     (auto intro!: keeps_seq keeps_skip keeps_with_val keeps_load_state_dict
        keeps_count_state_dict)

lemma keeps_homo_loop: "keeps_self (homo_loop source tc sc n ks)"
  by (induction ks) (auto intro!: keeps_seq keeps_skip keeps_with_val keeps_homo_layer)

lemma not_in_layers_simps [simp]:
  "not_in_layers P Embeddings n"
  "not_in_layers P (Attention k) n \<longleftrightarrow> \<not> P k"
  "not_in_layers P (Intermediate k) n \<longleftrightarrow> \<not> P k"
  "not_in_layers P (Output k) n \<longleftrightarrow> \<not> P k"
  by (simp_all add: not_in_layers_def in_layers_def layer_of_def)

lemma frames_embeddings_layers:
  "frames (not_in_layers P) (load_embeddings rp source tc sc mode)"
  unfolding load_embeddings_def Let_def
  by (intro frames_with_val)
     (auto intro!: frames_seq frames_skip frames_assign_to frames_assign_rp
        frames_load_state_dict frames_count_state_dict)

lemma frames_homo_layer:
  assumes "\<not> P i"
  shows "frames (not_in_layers P) (homo_layer source tc sc n i)"
  unfolding homo_layer_def using assms
  by (intro frames_with_val)
     (auto intro!: frames_seq frames_skip frames_with_val frames_load_state_dict
        frames_count_state_dict)

text \<open>A layer whose hidden width, heads or similarity differ is passed over.\<close>

lemma frames_homo_layer_mismatch:
  assumes "nth_err (hidden_dim_list tc) i \<noteq> nth_err (hidden_dim_list sc) i \<or>
           nth_err (attention_heads_list tc) i \<noteq> nth_err (attention_heads_list sc) i \<or>
           nth_err (similarity_list tc) i \<noteq> nth_err (similarity_list sc) i"
  shows "frames F (homo_layer source tc sc n i)"
proof (rule framesI)
  fix st st' :: "'a state" assume "homo_layer source tc sc n i st = Inr st'"
  with assms have "st' = st"
    by (auto simp: homo_layer_def with_val_def then_do_def skip_def split: sum.splits if_splits)
  then show "only_at F st st'" by (simp add: only_at_refl)
qed

lemma frames_homo_loop_skip:
  assumes "nth_err (hidden_dim_list tc) i \<noteq> nth_err (hidden_dim_list sc) i \<or>
           nth_err (attention_heads_list tc) i \<noteq> nth_err (attention_heads_list sc) i \<or>
           nth_err (similarity_list tc) i \<noteq> nth_err (similarity_list sc) i"
    and "\<And>k. k \<in> set ks \<Longrightarrow> k \<noteq> i \<Longrightarrow> \<not> P k"
  shows "frames (not_in_layers P) (homo_loop source tc sc n ks :: 'a cmd)"
  using assms(2)
proof (induction ks)
  case Nil
  show ?case by (simp add: frames_skip)
next
  case (Cons k ks)
  have layer: "frames (not_in_layers P) (homo_layer source tc sc n k)"
  proof (cases "k = i")
    case True
    then show ?thesis using frames_homo_layer_mismatch[OF assms(1)] by simp
  next
    case False
    then show ?thesis using Cons.prems by (intro frames_homo_layer) simp
  qed
  have rest: "frames (not_in_layers P) (homo_loop source tc sc n ks :: 'a cmd)"
    by (rule Cons.IH) (use Cons.prems in auto)
  show ?case
    by (auto intro!: frames_with_val frames_seq frames_skip layer rest)
qed

lemma frames_homo_loop_break:
  assumes "nth_err (attention_type tc) i \<noteq> nth_err (attention_type sc) i"
    and "\<And>k. k \<in> set (takeWhile (\<lambda>k. k \<noteq> i) ks) \<Longrightarrow> \<not> P k"
  shows "frames (not_in_layers P) (homo_loop source tc sc n ks :: 'a cmd)"
  using assms(2)
proof (induction ks)
  case Nil
  show ?case by (simp add: frames_skip)
next
  case (Cons k ks)
  show ?case
  proof (cases "k = i")
    case True
    show ?thesis
    proof (rule framesI)
      fix st st' :: "'a state" assume "homo_loop source tc sc n (k # ks) st = Inr st'"
      with assms(1) True have "st' = st"
        by (auto simp: with_val_def then_do_def skip_def split: sum.splits if_splits)
      then show "only_at (not_in_layers P) st st'" by (simp add: only_at_refl)
    qed
  next
    case False
    then have "\<not> P k" using Cons.prems by simp
    moreover have "frames (not_in_layers P) (homo_loop source tc sc n ks :: 'a cmd)"
      by (rule Cons.IH) (use Cons.prems False in auto)
    ultimately show ?thesis
      by (auto intro!: frames_with_val frames_seq frames_skip frames_homo_layer)
  qed
qed

lemma takeWhile_upt_less:
  "k \<in> set (takeWhile (\<lambda>k. k \<noteq> i) [j..<n]) \<Longrightarrow> j \<le> i \<Longrightarrow> k < i"
proof (induction "n - j" arbitrary: j)
  case 0
  then show ?case by simp
next
  case (Suc d)
  then have jn: "j < n" by simp
  from Suc.prems(1) have "j \<noteq> i \<and> (k = j \<or> k \<in> set (takeWhile (\<lambda>k. k \<noteq> i) [Suc j..<n]))"
    using jn by (auto simp: upt_conv_Cons split: if_splits)
  then show ?case using Suc.hyps(1)[of "Suc j"] Suc.hyps(2) Suc.prems(2) by auto
qed

lemma only_at_param_same:
  assumes "only_at F st st'" "self st' = self st" "separate (self st) G F" "G p n"
  shows "param (store st') (self st') p n = param (store st) (self st) p n"
proof (cases "param_addr (self st) p n")
  case (Inl e)
  then show ?thesis using assms(2) by (simp add: param_def then_do_def)
next
  case (Inr a)
  from param_addr_owned[of "self st" p n a G, OF Inr assms(4)] assms(3)
  have "a \<notin> set (owned (self st) F)"
    by (auto simp: separate_def list_all_iff)
  with assms(1) have "store st' a = store st a" by (simp add: only_at_def)
  then show ?thesis using assms(2) Inr by (simp add: param_def then_do_def fetch_def)
qed

lemma homo_transfer_run:
  assumes "\<not> from_model_dict_hetero (model_config target)"
    and "load_model_from_source rp s target source debug = Inr (st, r)"
  shows "block [load_embeddings rp source (model_config target) (model_config source)
                  (transfer_mode target),
                homo_loop source (model_config target) (model_config source)
                  (min (num_hidden_layers (model_config target))
                       (num_hidden_layers (model_config source)))
                  [0..<min (num_hidden_layers (model_config target))
                           (num_hidden_layers (model_config source))]]
           \<lparr>store = s, self = target, count = 0, rp_calls = 0\<rparr> = Inr st"
  using assms unfolding load_model_from_source_def Let_def
  by (auto simp: then_do_def split: if_splits sum.splits)

lemma keeps_homo_transfer:
  "keeps_self (block [load_embeddings rp source tc sc mode, homo_loop source tc sc n ks])"
  by (intro keeps_block) (simp add: keeps_load_embeddings keeps_homo_loop)

lemma write_all_lookup:
  "write_all ws s a = (case map_of (rev ws) a of None \<Rightarrow> s a | Some v \<Rightarrow> Some v)"
proof (induction ws arbitrary: s)
  case Nil
  show ?case by (simp add: write_all_def)
next
  case (Cons w ws)
  obtain a' v' where w: "w = (a', v')" by (cases w)
  have "write_all (w # ws) s a = write_all ws (s(a' \<mapsto> v')) a"
    by (simp add: write_all_def w)
  also have "\<dots> = (case map_of (rev ws) a of None \<Rightarrow> (s(a' \<mapsto> v')) a | Some v \<Rightarrow> Some v)"
    by (rule Cons.IH)
  also have "\<dots> = (case map_of (rev (w # ws)) a of None \<Rightarrow> s a | Some v \<Rightarrow> Some v)"
    by (simp add: w map_add_def split: option.splits)
  finally show ?case .
qed

lemma map_err_all:
  assumes "\<And>x. x \<in> set xs \<Longrightarrow> f x = Inr (g x)"
  shows "map_err f xs = Inr (map g xs)"
  using assms by (induction xs) (simp_all add: then_do_def)


lemma state_dict_all:
  assumes "registry m p = Inr rs" "list_all (\<lambda>(n, b). s b \<noteq> None) rs"
  shows "state_dict s m p [] = Inr (map (\<lambda>(n, b). (n, the (s b))) rs)"
proof -
  have sub: "submodule rs [] = rs" by (simp add: submodule_def)
  have "map_err (\<lambda>(n, a). then_do (fetch s a) (\<lambda>t. Inr (n, t))) rs
        = Inr (map (\<lambda>(n, b). (n, the (s b))) rs)"
    by (rule map_err_all)
       (use assms(2) in \<open>auto simp: list_all_iff fetch_def or_raise_def then_do_def\<close>)
  then show ?thesis using assms(1) by (simp add: state_dict_def get_module_def then_do_def sub)
qed

lemma map_of_values:
  "map_of (map (\<lambda>(n, b). (n, the (s b))) rs) n = map_option (\<lambda>b. the (s b)) (map_of rs n)"
  by (induction rs) auto

lemma value_of_the:
  assumes "list_all (\<lambda>(n, b). s b \<noteq> None) rs" "value_of s rs n = Some v"
  shows "map_of (map (\<lambda>(n, b). (n, the (s b))) rs) n = Some v"
proof -
  from assms(2) obtain b where b: "map_of rs n = Some b" "s b = Some v"
    by (auto simp: value_of_def split: option.splits)
  then show ?thesis by (simp add: map_of_values)
qed

text \<open>Loading a part that can be loaded: every object of the part gets the tensor the
  source holds under its name, and nothing else is written.\<close>

lemma load_state_dict_loadable:
  assumes "loadable (store st) (self st) source p"
    and rt: "registry (self st) p = Inr rt" and rs: "registry source p = Inr rs"
  shows "\<exists>s'. load_state_dict source p [] st = Inr (st\<lparr>store := s'\<rparr>) \<and>
           (\<forall>n a. (n, a) \<in> set rt \<longrightarrow> s' a = value_of (store st) rs n) \<and>
           (\<forall>a. a \<notin> snd ` set rt \<longrightarrow> s' a = store st a)"
proof -
  let ?s = "store st"
  let ?sd = "map (\<lambda>(n, b). (n, the (?s b))) rs"
  let ?g = "\<lambda>(n, a). (a, the (value_of ?s rs n))"
  let ?ws = "map ?g rt"
  from assms have alloc: "list_all (\<lambda>(n, b). ?s b \<noteq> None) rs"
    and names: "list_all (\<lambda>n. n \<in> set (map fst rt)) (map fst rs)"
    and fits: "list_all (fits ?s rs) rt" and ties: "ties_agree ?s rs rt"
    by (auto simp: loadable_def)
  have sub: "submodule rt [] = rt" by (simp add: submodule_def)
  have own: "get_module (self st) p [] = Inr rt"
    using rt by (simp add: get_module_def then_do_def sub)
  have sd: "state_dict ?s source p [] = Inr ?sd" by (rule state_dict_all[OF rs alloc])
  have names': "list_all (\<lambda>n. n \<in> set (map fst rt)) (map fst ?sd)"
    using names by (simp add: list_all_iff split_beta)
  have entry: "load_entry ?s ?sd e = Inr (?g e)" if "e \<in> set rt" for e
  proof -
    obtain n a where e: "e = (n, a)" by (cases e)
    from fits that e have "fits ?s rs (n, a)" by (auto simp: list_all_iff)
    then obtain t v where t: "?s a = Some t" and v: "value_of ?s rs n = Some v"
      and sh: "same_shape t v"
      by (auto simp: fits_def split: option.splits)
    from value_of_the[OF alloc v] t v sh show ?thesis
      by (simp add: e load_entry_def fetch_def or_raise_def then_do_def)
  qed
  have ws: "map_err (load_entry ?s ?sd) rt = Inr ?ws" by (rule map_err_all) (rule entry)
  have run: "load_state_dict source p [] st = Inr (st\<lparr>store := write_all ?ws ?s\<rparr>)"
    using own sd names' ws by (simp add: load_state_dict_def then_do_def)
  have written: "write_all ?ws ?s a = value_of ?s rs n" if na: "(n, a) \<in> set rt" for n a
  proof -
    have "(a, the (value_of ?s rs n)) \<in> set (rev ?ws)" using na by force
    then have "map_of (rev ?ws) a \<noteq> None"
      by (metis map_of_eq_None_iff fst_conv image_eqI)
    then obtain v where v: "map_of (rev ?ws) a = Some v" by auto
    then have "(a, v) \<in> set ?ws" by (auto dest: map_of_SomeD)
    then obtain n' where n': "(n', a) \<in> set rt" "v = the (value_of ?s rs n')" by auto
    from ties na n'(1) have eq: "value_of ?s rs n = value_of ?s rs n'"
      by (auto simp: ties_agree_def list_all_iff)
    from fits n'(1) have "fits ?s rs (n', a)" by (auto simp: list_all_iff)
    then obtain v' where "value_of ?s rs n' = Some v'"
      by (auto simp: fits_def split: option.splits)
    then show ?thesis using v n'(2) eq by (simp add: write_all_lookup)
  qed
  have other: "write_all ?ws ?s a = ?s a" if "a \<notin> snd ` set rt" for a
  proof -
    have "a \<notin> fst ` set (rev ?ws)" using that by force
    then have "map_of (rev ?ws) a = None" by (simp add: map_of_eq_None_iff)
    then show ?thesis by (simp add: write_all_lookup)
  qed
  show ?thesis using run written other by blast
qed

lemma value_of_cong:
  assumes "\<And>b. b \<in> snd ` set rs \<Longrightarrow> s1 b = s b"
  shows "value_of s1 rs n = value_of s rs n"
proof (cases "map_of rs n")
  case None
  then show ?thesis by (simp add: value_of_def)
next
  case (Some b)
  then have "b \<in> snd ` set rs" by (force dest: map_of_SomeD)
  then show ?thesis using Some assms by (simp add: value_of_def)
qed

lemma part_addrs_registry: "registry m p = Inr reg \<Longrightarrow> set (part_addrs m p) = snd ` set reg"
  by (simp add: part_addrs_def)

lemma loadable_cong:
  assumes t: "\<And>a. a \<in> set (part_addrs target q) \<Longrightarrow> s1 a = s a"
    and src: "\<And>a. a \<in> set (part_addrs source q) \<Longrightarrow> s1 a = s a"
    and l: "loadable s target source q"
  shows "loadable s1 target source q"
proof -
  from l obtain rt rs where rt: "registry target q = Inr rt" and rs: "registry source q = Inr rs"
    and alloc: "list_all (\<lambda>(n, b). s b \<noteq> None) rs"
    and names: "list_all (\<lambda>n. n \<in> set (map fst rt)) (map fst rs)"
    and fits: "list_all (fits s rs) rt" and ties: "ties_agree s rs rt"
    by (auto simp: loadable_def split: sum.splits)
  have t': "\<And>n a. (n, a) \<in> set rt \<Longrightarrow> s1 a = s a"
    using t part_addrs_registry[OF rt] by force
  have s': "\<And>b. b \<in> snd ` set rs \<Longrightarrow> s1 b = s b"
    using src part_addrs_registry[OF rs] by simp
  have v: "\<And>n. value_of s1 rs n = value_of s rs n" by (rule value_of_cong) (rule s')
  have "list_all (\<lambda>(n, b). s1 b \<noteq> None) rs"
    using alloc s' by (force simp: list_all_iff)
  moreover have "fits s1 rs e = fits s rs e" if "e \<in> set rt" for e
  proof -
    obtain n a where e: "e = (n, a)" by (cases e)
    with that have "s1 a = s a" using t' by simp
    then show ?thesis unfolding e fits_def v by simp
  qed
  then have "list_all (fits s1 rs) rt" using fits by (simp add: list_all_iff)
  moreover have "ties_agree s1 rs rt" using ties by (simp add: ties_agree_def v)
  ultimately show ?thesis using rt rs names by (simp add: loadable_def)
qed

lemma load_part_loadable:
  assumes l: "loadable (store st) (self st) source p"
    and rt: "registry (self st) p = Inr rt" and rs: "registry source p = Inr rs"
  shows "\<exists>s'. load_part source p st = Inr (st\<lparr>store := s', count := count st + length rs\<rparr>) \<and>
           (\<forall>n a. (n, a) \<in> set rt \<longrightarrow> s' a = value_of (store st) rs n) \<and>
           (\<forall>a. a \<notin> snd ` set rt \<longrightarrow> s' a = store st a)"
proof -
  from load_state_dict_loadable[OF l rt rs] obtain s' where
    run: "load_state_dict source p [] st = Inr (st\<lparr>store := s'\<rparr>)"
    and written: "\<And>n a. (n, a) \<in> set rt \<Longrightarrow> s' a = value_of (store st) rs n"
    and other: "\<And>a. a \<notin> snd ` set rt \<Longrightarrow> s' a = store st a"
    by blast
  from l rt rs have alloc: "list_all (\<lambda>(n, b). store st b \<noteq> None) rs"
    and fits: "list_all (fits (store st) rs) rt"
    by (auto simp: loadable_def)
  have "s' b \<noteq> None" if "(n, b) \<in> set rs" for n b
  proof (cases "b \<in> snd ` set rt")
    case True
    then obtain n' where n': "(n', b) \<in> set rt" by auto
    with fits have "fits (store st) rs (n', b)" by (auto simp: list_all_iff)
    then have "value_of (store st) rs n' \<noteq> None" by (auto simp: fits_def split: option.splits)
    then show ?thesis using written[OF n'] by simp
  next
    case False
    then show ?thesis using other alloc that by (force simp: list_all_iff)
  qed
  then have "list_all (\<lambda>(n, b). s' b \<noteq> None) rs" by (auto simp: list_all_iff)
  from state_dict_all[OF rs this]
  have "count_state_dict source p [] (st\<lparr>store := s'\<rparr>)
        = Inr (st\<lparr>store := s', count := count st + length rs\<rparr>)"
    by (simp add: count_state_dict_def then_do_def)
  then have "load_part source p st = Inr (st\<lparr>store := s', count := count st + length rs\<rparr>)"
    using run by (simp add: load_part_def seq_def then_do_def)
  then show ?thesis using written other by blast
qed


lemma alike_Cons:
  assumes "alike s target source (p # ps)"
  shows "loadable s target source p"
    and "list_all (loadable s target source) ps"
    and "\<And>q. q \<in> set ps \<Longrightarrow> apart (part_addrs target p) (part_addrs target q)"
    and "\<And>q. q \<in> set ps \<Longrightarrow> apart (part_addrs source q) (part_addrs target p)"
    and "parts_apart target ps"
    and "list_all (\<lambda>p. list_all (\<lambda>q. apart (part_addrs source p) (part_addrs target q)) ps) ps"
  using assms by (auto simp: alike_def list_all_iff)

lemma apartD: "apart xs ys \<Longrightarrow> a \<in> set xs \<Longrightarrow> a \<notin> set ys"
  by (auto simp: apart_def list_all_iff)

lemma loadable_registries:
  assumes "loadable s target source p"
  obtains rt rs where "registry target p = Inr rt" "registry source p = Inr rs"
  using assms by (auto simp: loadable_def split: sum.splits)

lemma load_parts_alike:
  assumes "alike (store st) (self st) source ps"
  shows "\<exists>s'. block (map (load_part source) ps) st
                = Inr (st\<lparr>store := s', count := count st + entries_of source ps\<rparr>) \<and>
           (\<forall>p rt rs n a. p \<in> set ps \<longrightarrow> registry (self st) p = Inr rt \<longrightarrow>
                registry source p = Inr rs \<longrightarrow> (n, a) \<in> set rt \<longrightarrow>
                s' a = value_of (store st) rs n) \<and>
           (\<forall>a. (\<forall>p \<in> set ps. a \<notin> set (part_addrs (self st) p)) \<longrightarrow> s' a = store st a)"
  using assms
proof (induction ps arbitrary: st)
  case Nil
  have "st\<lparr>store := store st, count := count st + entries_of source []\<rparr> = st"
    by (simp add: entries_of_def)
  then show ?case by (intro exI[of _ "store st"]) (simp add: skip_def)
next
  case (Cons p ps)
  let ?t = "self st"
  note a = alike_Cons[OF Cons.prems]
  from a(1) obtain rt rs where rt: "registry ?t p = Inr rt" and rs: "registry source p = Inr rs"
    by (rule loadable_registries)
  from load_part_loadable[OF a(1) rt rs] obtain s1 where
    run1: "load_part source p st = Inr (st\<lparr>store := s1, count := count st + length rs\<rparr>)"
    and written1: "\<And>n a. (n, a) \<in> set rt \<Longrightarrow> s1 a = value_of (store st) rs n"
    and other1: "\<And>a. a \<notin> snd ` set rt \<Longrightarrow> s1 a = store st a"
    by blast
  let ?st1 = "st\<lparr>store := s1, count := count st + length rs\<rparr>"
  have tp: "set (part_addrs ?t p) = snd ` set rt" by (rule part_addrs_registry[OF rt])
  have keep_t: "s1 b = store st b" if "q \<in> set ps" "b \<in> set (part_addrs ?t q)" for q b
  proof -
    from apartD[OF a(3)[OF that(1)]] that(2) have "b \<notin> set (part_addrs ?t p)" by blast
    then show ?thesis using other1 tp by simp
  qed
  have keep_s: "s1 b = store st b" if "q \<in> set ps" "b \<in> set (part_addrs source q)" for q b
  proof -
    from apartD[OF a(4)[OF that(1)] that(2)] show ?thesis using other1 tp by simp
  qed
  have "list_all (loadable s1 ?t source) ps"
    unfolding list_all_iff
  proof
    fix q assume q: "q \<in> set ps"
    with a(2) have "loadable (store st) ?t source q" by (simp add: list_all_iff)
    then show "loadable s1 ?t source q"
      by (rule loadable_cong[rotated 2]) (use keep_t[OF q] keep_s[OF q] in auto)
  qed
  then have "alike (store ?st1) (self ?st1) source ps"
    using a(5,6) by (simp add: alike_def)
  from Cons.IH[OF this] obtain s' where
    run: "block (map (load_part source) ps) ?st1
          = Inr (?st1\<lparr>store := s', count := count ?st1 + entries_of source ps\<rparr>)"
    and written: "\<And>q rt rs n a. q \<in> set ps \<Longrightarrow> registry ?t q = Inr rt \<Longrightarrow>
          registry source q = Inr rs \<Longrightarrow> (n, a) \<in> set rt \<Longrightarrow> s' a = value_of s1 rs n"
    and other: "\<And>a. (\<forall>q \<in> set ps. a \<notin> set (part_addrs ?t q)) \<Longrightarrow> s' a = s1 a"
    by (simp del: block.simps) blast
  have cnt: "entries_of source (p # ps) = length rs + entries_of source ps"
    using rs by (simp add: entries_of_def part_addrs_def)
  have all: "block (map (load_part source) (p # ps)) st
             = Inr (st\<lparr>store := s', count := count st + entries_of source (p # ps)\<rparr>)"
    using run1 run by (simp add: seq_def then_do_def cnt add.assoc)
  have w: "s' a = value_of (store st) rs' n"
    if q: "q \<in> set (p # ps)" and rt': "registry ?t q = Inr rt'"
      and rs': "registry source q = Inr rs'" and na: "(n, a) \<in> set rt'" for q rt' rs' n a
  proof (cases "q \<in> set ps")
    case True
    have "value_of s1 rs' n = value_of (store st) rs' n"
      by (rule value_of_cong) (use keep_s[OF True] part_addrs_registry[OF rs'] in auto)
    then show ?thesis using written[OF True rt' rs' na] by simp
  next
    case False
    with q have qp: "q = p" by simp
    then have eq: "rt' = rt" "rs' = rs" using rt rs rt' rs' by simp_all
    have "a \<in> set (part_addrs ?t p)" using na tp eq by force
    then have "\<forall>q \<in> set ps. a \<notin> set (part_addrs ?t q)"
      using a(3) apartD by blast
    from other[OF this] written1[of n a] na eq show ?thesis by simp
  qed
  have o: "s' a = store st a" if "\<forall>q \<in> set (p # ps). a \<notin> set (part_addrs ?t q)" for a
  proof -
    from that have "s' a = s1 a" using other by simp
    moreover from that have "a \<notin> snd ` set rt" using tp by simp
    ultimately show ?thesis using other1 by simp
  qed
  show ?case using all w o by blast
qed


lemma seq_assoc: "seq (seq c d) e = seq c (seq d e)"
  by (rule ext) (simp add: seq_def then_do_def split: sum.splits)

lemma seq_skip [simp]: "seq c skip = c" "seq skip c = c"
  by (rule ext, simp add: seq_def then_do_def skip_def split: sum.splits)+

lemma block_append: "block (cs @ ds) = seq (block cs) (block ds)"
  by (induction cs) (simp_all add: seq_assoc)

lemma with_val_Inr [simp]: "with_val (Inr v) f = f v"
  by (rule ext) (simp add: with_val_def then_do_def)

lemma nth_err_Inr: "i < length xs \<Longrightarrow> nth_err xs i = Inr (xs ! i)"
  by (simp add: nth_err_def)

lemma homo_layer_same:
  assumes "i < n" "n \<le> length (hidden_dim_list tc)" "n \<le> length (attention_heads_list tc)"
    "n \<le> length (similarity_list tc)" "n \<le> length (ff_dim_list tc)"
  shows "homo_layer source tc tc n i = block (map (load_part source) (layer_parts n i))"
proof -
  have i: "nth_err (hidden_dim_list tc) i = Inr (hidden_dim_list tc ! i)"
    "nth_err (attention_heads_list tc) i = Inr (attention_heads_list tc ! i)"
    "nth_err (similarity_list tc) i = Inr (similarity_list tc ! i)"
    "nth_err (ff_dim_list tc) i = Inr (ff_dim_list tc ! i)"
    using assms by (simp_all add: nth_err_Inr)
  have next_layer: "nth_err (hidden_dim_list tc) (Suc i) = Inr (hidden_dim_list tc ! Suc i)"
    if "i + 1 < n"
    using that assms(2) by (simp add: nth_err_Inr)
  show ?thesis
  proof (cases "i + 1 < n")
    case True
    then show ?thesis
      unfolding homo_layer_def
      by (simp add: i next_layer[OF True] layer_parts_def load_part_def seq_assoc)
  next
    case False
    then show ?thesis
      unfolding homo_layer_def
      by (simp add: i layer_parts_def load_part_def seq_assoc)
  qed
qed

lemma homo_loop_same:
  assumes "n \<le> length (hidden_dim_list tc)" "n \<le> length (attention_heads_list tc)"
    "n \<le> length (similarity_list tc)" "n \<le> length (ff_dim_list tc)"
    "n \<le> length (attention_type tc)"
    and "\<And>k. k \<in> set ks \<Longrightarrow> k < n"
  shows "(homo_loop source tc tc n ks :: 'a cmd)
         = block (map (load_part source) (concat (map (layer_parts n) ks)))"
  using assms(6)
proof (induction ks)
  case Nil
  show ?case by simp
next
  case (Cons k ks)
  then have k: "k < n" by simp
  then have ty: "nth_err (attention_type tc) k = Inr (attention_type tc ! k)"
    using assms(5) by (simp add: nth_err_Inr)
  have rest: "(homo_loop source tc tc n ks :: 'a cmd)
        = block (map (load_part source) (concat (map (layer_parts n) ks)))"
    by (rule Cons.IH) (use Cons.prems in auto)
  show ?case
    by (simp add: ty homo_layer_same[OF k assms(1-4)] rest block_append del: block.simps)
qed

lemma load_embeddings_same:
  assumes "0 < length (hidden_dim_list tc)"
  shows "load_embeddings rp source tc tc mode = load_part source Embeddings"
  using assms by (simp add: load_embeddings_def nth_err_Inr load_part_def)

lemma homo_transfer_same:
  assumes "config_complete tc"
  shows "block [load_embeddings rp source tc tc mode,
                homo_loop source tc tc (num_hidden_layers tc) [0..<num_hidden_layers tc]]
         = block (map (load_part source) (loaded_parts (num_hidden_layers tc)))"
proof -
  let ?n = "num_hidden_layers tc"
  from assms have c: "0 < ?n" "?n \<le> length (hidden_dim_list tc)"
    "?n \<le> length (attention_heads_list tc)" "?n \<le> length (attention_type tc)"
    "?n \<le> length (similarity_list tc)" "?n \<le> length (ff_dim_list tc)"
    by (simp_all add: config_complete_def Let_def)
  have e: "load_embeddings rp source tc tc mode = load_part source Embeddings"
    by (rule load_embeddings_same) (use c in linarith)
  have l: "homo_loop source tc tc ?n [0..<?n]
           = block (map (load_part source) (concat (map (layer_parts ?n) [0..<?n])))"
    by (rule homo_loop_same[OF c(2,3,5,6,4)]) simp
  show ?thesis by (simp add: e l loaded_parts_def)
qed


lemma param_loaded:
  assumes l: "loadable s target source p"
    and rt: "registry target p = Inr rt" and rs: "registry source p = Inr rs"
    and w: "\<And>n a. (n, a) \<in> set rt \<Longrightarrow> s' a = value_of s rs n"
  shows "param s' target p name = param s source p name"
proof (cases "map_of rt name")
  case None
  then have "name \<notin> fst ` set rt" by (simp add: map_of_eq_None_iff)
  moreover from l rt rs have "list_all (\<lambda>n. n \<in> set (map fst rt)) (map fst rs)"
    by (simp add: loadable_def)
  ultimately have "name \<notin> fst ` set rs" by (auto simp: list_all_iff)
  then have "map_of rs name = None" by (simp add: map_of_eq_None_iff)
  then show ?thesis using None rt rs
    by (simp add: param_def param_addr_def getattr_def or_raise_def then_do_def)
next
  case (Some a)
  then have na: "(name, a) \<in> set rt" by (rule map_of_SomeD)
  from l rt rs have "list_all (fits s rs) rt" by (simp add: loadable_def)
  with na have "fits s rs (name, a)" by (auto simp: list_all_iff)
  then obtain v where v: "value_of s rs name = Some v"
    by (auto simp: fits_def split: option.splits)
  then obtain b where b: "map_of rs name = Some b" "s b = Some v"
    by (auto simp: value_of_def split: option.splits)
  from w[OF na] v have "s' a = Some v" by simp
  then show ?thesis using Some b rt rs
    by (simp add: param_def param_addr_def getattr_def fetch_def or_raise_def then_do_def)
qed

lemma param_kept:
  assumes "\<And>a. a \<in> set (part_addrs target p) \<Longrightarrow> s' a = s a"
  shows "param s' target p name = param s target p name"
proof (cases "param_addr target p name")
  case (Inl e)
  then show ?thesis by (simp add: param_def then_do_def)
next
  case (Inr a)
  then obtain reg where "registry target p = Inr reg" "(name, a) \<in> set reg"
    by (auto simp: param_addr_def then_do_def getattr_def or_raise_def
             split: sum.splits option.splits dest: map_of_SomeD)
  then have "a \<in> set (part_addrs target p)" by (force simp: part_addrs_def)
  from assms[OF this] show ?thesis using Inr by (simp add: param_def then_do_def fetch_def)
qed

section \<open>What the heterogeneous transfer leaves alone\<close>





section \<open>Convolutional heads and the transfer mode\<close>







section \<open>Mismatches in the homogeneous mode\<close>

text \<open>
  Claim C2, as amended. In the homogeneous mode, whenever the transfer returns: if source
  and target disagree on the attention type of layer \<open>i\<close>, every parameter of layer \<open>i\<close>
  and of every later layer has the value it had before the call (the loop ends there);
  if they disagree on the hidden width, the head configuration or the similarity type of
  layer \<open>i\<close>, every parameter of layer \<open>i\<close> has the value it had before the call, and the
  loop goes on with the next layer. Both hold for targets that hold the objects of the
  layers in question at no other location.
\<close>

theorem homogeneous_mismatch_effect:
  assumes homo: "\<not> from_model_dict_hetero (model_config target)"
    and run: "load_model_from_source rp s target source debug = Inr (st, r)"
  shows
    "(nth_err (attention_type (model_config target)) i \<noteq>
        nth_err (attention_type (model_config source)) i \<and>
      separate target (in_layers (\<lambda>k. i \<le> k)) (not_in_layers (\<lambda>k. i \<le> k)) \<and>
      in_layers (\<lambda>k. i \<le> k) p name \<longrightarrow>
        param (store st) (self st) p name = param s target p name) \<and>
     ((nth_err (hidden_dim_list (model_config target)) i \<noteq>
         nth_err (hidden_dim_list (model_config source)) i \<or>
       nth_err (attention_heads_list (model_config target)) i \<noteq>
         nth_err (attention_heads_list (model_config source)) i \<or>
       nth_err (similarity_list (model_config target)) i \<noteq>
         nth_err (similarity_list (model_config source)) i) \<and>
      separate target (in_layers (\<lambda>k. k = i)) (not_in_layers (\<lambda>k. k = i)) \<and>
      in_layers (\<lambda>k. k = i) p name \<longrightarrow>
        param (store st) (self st) p name = param s target p name)"
proof -
  let ?tc = "model_config target" and ?sc = "model_config source"
  let ?n = "min (num_hidden_layers ?tc) (num_hidden_layers ?sc)"
  let ?init = "\<lparr>store = s, self = target, count = 0, rp_calls = 0\<rparr>"
  let ?c = "block [load_embeddings rp source ?tc ?sc (transfer_mode target),
                   homo_loop source ?tc ?sc ?n [0..<?n]]"
  have c: "?c ?init = Inr st" by (rule homo_transfer_run[OF homo run])
  have "keeps_self ?c" by (rule keeps_homo_transfer)
  with c have self: "self st = self ?init" unfolding keeps_self_def by blast
  have kept: "param (store st) (self st) p name = param s target p name"
    if fr: "frames (not_in_layers P) (homo_loop source ?tc ?sc ?n [0..<?n] :: 'a cmd)"
      and sep: "separate target (in_layers P) (not_in_layers P)"
      and loc: "in_layers P p name" for P
  proof -
    have "frames (not_in_layers P) ?c"
      by (intro frames_block) (simp add: frames_embeddings_layers fr)
    from framesD[OF this c] have "only_at (not_in_layers P) ?init st" .
    from only_at_param_same[OF this self, of "in_layers P" p name] sep loc
    show ?thesis by simp
  qed
  have A: "param (store st) (self st) p name = param s target p name"
    if "nth_err (attention_type ?tc) i \<noteq> nth_err (attention_type ?sc) i"
      and "separate target (in_layers (\<lambda>k. i \<le> k)) (not_in_layers (\<lambda>k. i \<le> k))"
      and "in_layers (\<lambda>k. i \<le> k) p name"
  proof (rule kept[OF _ that(2,3)])
    show "frames (not_in_layers (\<lambda>k. i \<le> k)) (homo_loop source ?tc ?sc ?n [0..<?n] :: 'a cmd)"
      by (rule frames_homo_loop_break[OF that(1)]) (use takeWhile_upt_less in fastforce)
  qed
  have B: "param (store st) (self st) p name = param s target p name"
    if "nth_err (hidden_dim_list ?tc) i \<noteq> nth_err (hidden_dim_list ?sc) i \<or>
        nth_err (attention_heads_list ?tc) i \<noteq> nth_err (attention_heads_list ?sc) i \<or>
        nth_err (similarity_list ?tc) i \<noteq> nth_err (similarity_list ?sc) i"
      and "separate target (in_layers (\<lambda>k. k = i)) (not_in_layers (\<lambda>k. k = i))"
      and "in_layers (\<lambda>k. k = i) p name"
  proof (rule kept[OF _ that(2,3)])
    show "frames (not_in_layers (\<lambda>k. k = i)) (homo_loop source ?tc ?sc ?n [0..<?n] :: 'a cmd)"
      by (rule frames_homo_loop_skip[OF that(1)]) simp
  qed
  show ?thesis using A B by blast
qed


text \<open>
  The claim as it was stated fails for a mismatch of the head configuration: with two
  layers whose head counts differ at layer 0 only, the transfer passes over layer 0 and
  loads the attention block of layer 1 from the source.
\<close>

theorem head_mismatch_does_not_stop_transfer:
  "\<not> from_model_dict_hetero (model_config ex_heads_target) \<and>
   nth_err (attention_heads_list (model_config ex_heads_target)) 0 = Inr (NumHeads 1) \<and>
   nth_err (attention_heads_list (model_config ex_heads_source)) 0 = Inr (NumHeads 2) \<and>
   param ex_heads_store ex_heads_target (Attention 1) ''self.query.weight''
     = Inr (T2 [[1065, 1066], [1067, 1068]]) \<and>
   param_after (load_model_from_source ex_rp ex_heads_store ex_heads_target ex_heads_source
     False) (Attention 1) ''self.query.weight''
     = Inr (T2 [[5062, 5063], [5064, 5065]])"
  by code_simp

lemma ex_type_ratio:
  "returned_ratio (load_model_from_source ex_rp ex_type_store ex_type_target ex_type_source
     False) = Inr (3 / 22)"
  by code_simp

lemma ex_heads_ratio:
  "returned_ratio (load_model_from_source ex_rp ex_heads_store ex_heads_target ex_heads_source
     False) = Inr (21 / 44)"
  by code_simp

theorem homogeneous_mismatch_effect_witness:
  "\<not> from_model_dict_hetero (model_config ex_type_target) \<and>
   returned_ratio (load_model_from_source ex_rp ex_type_store ex_type_target ex_type_source
     False) = Inr (3 / 22) \<and>
   nth_err (attention_type (model_config ex_type_target)) 0 = Inr ''sa'' \<and>
   nth_err (attention_type (model_config ex_type_source)) 0 = Inr ''l'' \<and>
   separate ex_type_target (in_layers (\<lambda>k. 0 \<le> k)) (not_in_layers (\<lambda>k. 0 \<le> k)) \<and>
   in_layers (\<lambda>k. 0 \<le> k) (Attention 1) ''self.query.weight'' \<and>
   param_after (load_model_from_source ex_rp ex_type_store ex_type_target ex_type_source
     False) (Attention 1) ''self.query.weight'' = Inr (T2 [[1065, 1066], [1067, 1068]]) \<and>
   \<not> from_model_dict_hetero (model_config ex_heads_target) \<and>
   returned_ratio (load_model_from_source ex_rp ex_heads_store ex_heads_target ex_heads_source
     False) = Inr (21 / 44) \<and>
   nth_err (attention_heads_list (model_config ex_heads_target)) 0 = Inr (NumHeads 1) \<and>
   nth_err (attention_heads_list (model_config ex_heads_source)) 0 = Inr (NumHeads 2) \<and>
   separate ex_heads_target (in_layers (\<lambda>k. k = 0)) (not_in_layers (\<lambda>k. k = 0)) \<and>
   in_layers (\<lambda>k. k = 0) (Attention 0) ''self.query.weight'' \<and>
   param_after (load_model_from_source ex_rp ex_heads_store ex_heads_target ex_heads_source
     False) (Attention 0) ''self.query.weight'' = Inr (T2 [[1017, 1018], [1019, 1020]])"
proof -
  let ?t = "load_model_from_source ex_rp ex_type_store ex_type_target ex_type_source False"
  let ?h = "load_model_from_source ex_rp ex_heads_store ex_heads_target ex_heads_source False"
  have t1: "\<not> from_model_dict_hetero (model_config ex_type_target)" by code_simp
  have t2: "nth_err (attention_type (model_config ex_type_target)) 0 = Inr ''sa''" by code_simp
  have t3: "nth_err (attention_type (model_config ex_type_source)) 0 = Inr ''l''" by code_simp
  have t4: "separate ex_type_target (in_layers (\<lambda>k. 0 \<le> k)) (not_in_layers (\<lambda>k. 0 \<le> k))"
    by code_simp
  have t5: "in_layers (\<lambda>k. 0 \<le> k) (Attention 1) ''self.query.weight''" by code_simp
  have t6: "param ex_type_store ex_type_target (Attention 1) ''self.query.weight''
      = Inr (T2 [[1065, 1066], [1067, 1068]])" by code_simp
  from ex_type_ratio obtain st r where t: "?t = Inr (st, r)"
    by (cases ?t) (auto simp: returned_ratio_def then_do_def)
  from homogeneous_mismatch_effect[OF t1 t, of 0 "Attention 1" "''self.query.weight''"]
    t2 t3 t4 t5 t6
  have t7: "param_after ?t (Attention 1) ''self.query.weight''
      = Inr (T2 [[1065, 1066], [1067, 1068]])"
    by (simp add: t param_after_def then_do_def)
  have h1: "\<not> from_model_dict_hetero (model_config ex_heads_target)" by code_simp
  have h2: "nth_err (attention_heads_list (model_config ex_heads_target)) 0 = Inr (NumHeads 1)"
    by code_simp
  have h3: "nth_err (attention_heads_list (model_config ex_heads_source)) 0 = Inr (NumHeads 2)"
    by code_simp
  have h4: "separate ex_heads_target (in_layers (\<lambda>k. k = 0)) (not_in_layers (\<lambda>k. k = 0))"
    by code_simp
  have h5: "in_layers (\<lambda>k. k = 0) (Attention 0) ''self.query.weight''" by code_simp
  have h6: "param ex_heads_store ex_heads_target (Attention 0) ''self.query.weight''
      = Inr (T2 [[1017, 1018], [1019, 1020]])" by code_simp
  from ex_heads_ratio obtain st' r' where h: "?h = Inr (st', r')"
    by (cases ?h) (auto simp: returned_ratio_def then_do_def)
  from homogeneous_mismatch_effect[OF h1 h, of 0 "Attention 0" "''self.query.weight''"]
    h2 h3 h4 h5 h6
  have h7: "param_after ?h (Attention 0) ''self.query.weight''
      = Inr (T2 [[1017, 1018], [1019, 1020]])"
    by (simp add: h param_after_def then_do_def)
  show ?thesis
    using t1 ex_type_ratio t2 t3 t4 t5 t7 h1 ex_heads_ratio h2 h3 h4 h5 h7 by blast
qed

section \<open>Transfer between models of one configuration\<close>

text \<open>
  Claim C1, as amended. For every pair of homogeneous models whose configurations are
  identical, with an entry for every layer, and whose parts are laid out alike, the
  transfer returns; the ratio it returns is the number of tensors of the source in the
  embeddings, in the attention and intermediate blocks of every layer and in the output
  blocks of every layer but the last, over the number of tensors of the target; after
  the call every parameter of the target in those parts equals the parameter of that
  name of the source, and the parameters of the output block of the last layer have the
  values they had before the call.
\<close>

theorem identical_homogeneous_transfer:
  assumes same: "model_config source = model_config target"
    and homo: "\<not> from_model_dict_hetero (model_config target)"
    and complete: "config_complete (model_config target)"
    and total: "0 < total_entries target"
    and layout: "alike s target source (loaded_parts (num_hidden_layers (model_config target)))"
    and last: "list_all (\<lambda>p. apart (part_addrs target (Output (num_hidden_layers (model_config target) - 1)))
                              (part_addrs target p))
                 (loaded_parts (num_hidden_layers (model_config target)))"
  shows "\<exists>st. load_model_from_source rp s target source debug
                = Inr (st, of_nat (entries_of source
                                     (loaded_parts (num_hidden_layers (model_config target))))
                           / of_nat (total_entries target)) \<and>
              self st = target \<and>
              (\<forall>p name. p \<in> set (loaded_parts (num_hidden_layers (model_config target))) \<longrightarrow>
                 param (store st) target p name = param s source p name) \<and>
              (\<forall>name. param (store st) target
                         (Output (num_hidden_layers (model_config target) - 1)) name
                       = param s target
                           (Output (num_hidden_layers (model_config target) - 1)) name)"
proof -
  let ?tc = "model_config target"
  let ?n = "num_hidden_layers ?tc"
  let ?ps = "loaded_parts ?n"
  let ?init = "\<lparr>store = s, self = target, count = 0, rp_calls = 0\<rparr>"
  have flow: "block [load_embeddings rp source ?tc ?tc (transfer_mode target),
                     homo_loop source ?tc ?tc ?n [0..<?n]]
              = (block (map (load_part source) ?ps) :: 'a cmd)"
    by (rule homo_transfer_same[OF complete])
  have "alike (store ?init) (self ?init) source ?ps" using layout by simp
  from load_parts_alike[OF this] obtain s' where
    run: "block (map (load_part source) ?ps) ?init
          = Inr (?init\<lparr>store := s', count := count ?init + entries_of source ?ps\<rparr>)"
    and written: "\<And>p rt rs n a. p \<in> set ?ps \<Longrightarrow> registry target p = Inr rt \<Longrightarrow>
          registry source p = Inr rs \<Longrightarrow> (n, a) \<in> set rt \<Longrightarrow> s' a = value_of s rs n"
    and other: "\<And>a. (\<forall>p \<in> set ?ps. a \<notin> set (part_addrs target p)) \<Longrightarrow> s' a = s a"
    by (simp del: block.simps) blast
  let ?st = "\<lparr>store = s', self = target, count = entries_of source ?ps, rp_calls = 0\<rparr>"
  have res: "load_model_from_source rp s target source debug
        = Inr (?st, of_nat (entries_of source ?ps) / of_nat (total_entries target))"
    unfolding load_model_from_source_def Let_def
    using same homo total run flow by (simp add: then_do_def del: block.simps)
  have loaded: "param s' target p name = param s source p name" if p: "p \<in> set ?ps" for p name
  proof -
    from layout p have l: "loadable s target source p" by (simp add: alike_def list_all_iff)
    then obtain rt rs where rt: "registry target p = Inr rt" and rs: "registry source p = Inr rs"
      by (rule loadable_registries)
    show ?thesis by (rule param_loaded[OF l rt rs]) (rule written[OF p rt rs])
  qed
  have kept: "param s' target (Output (?n - 1)) name = param s target (Output (?n - 1)) name"
    for name
  proof (rule param_kept)
    fix a assume "a \<in> set (part_addrs target (Output (?n - 1)))"
    with last have "\<forall>p \<in> set ?ps. a \<notin> set (part_addrs target p)"
      by (auto simp: list_all_iff dest: apartD)
    then show "s' a = s a" by (rule other)
  qed
  show ?thesis using res loaded kept by (intro exI[of _ ?st]) simp
qed

text \<open>
  The claim as it was stated fails: for two one-layer models of one configuration the
  ratio is 21/25, and the output block of the layer is not loaded (the test
  \<^verbatim>\<open>i + 1 < min(...)\<close> fails at the last layer).
\<close>

theorem identical_configs_not_fully_transferred:
  "model_config ex_same_source = model_config ex_same_target \<and>
   returned_ratio (load_model_from_source ex_rp ex_same_store ex_same_target ex_same_source
     False) = Inr (21 / 25) \<and>
   param ex_same_store ex_same_source (Output 0) ''dense.weight''
     = Inr (T2 [[5051, 5052], [5053, 5054]]) \<and>
   param_after (load_model_from_source ex_rp ex_same_store ex_same_target ex_same_source
     False) (Output 0) ''dense.weight'' = Inr (T2 [[1051, 1052], [1053, 1054]])"
  by code_simp


theorem identical_homogeneous_transfer_witness:
  "model_config ex_same_source = model_config ex_same_target \<and>
   \<not> from_model_dict_hetero (model_config ex_same_target) \<and>
   config_complete (model_config ex_same_target) \<and>
   0 < total_entries ex_same_target \<and>
   num_hidden_layers (model_config ex_same_target) = 1 \<and>
   alike ex_same_store ex_same_target ex_same_source (loaded_parts 1) \<and>
   list_all (\<lambda>p. apart (part_addrs ex_same_target (Output 0)) (part_addrs ex_same_target p))
     (loaded_parts 1) \<and>
   returned_ratio (load_model_from_source ex_rp ex_same_store ex_same_target ex_same_source
     False) = Inr (21 / 25) \<and>
   param_after (load_model_from_source ex_rp ex_same_store ex_same_target ex_same_source
     False) (Attention 0) ''self.query.weight''
     = param ex_same_store ex_same_source (Attention 0) ''self.query.weight'' \<and>
   param_after (load_model_from_source ex_rp ex_same_store ex_same_target ex_same_source
     False) (Output 0) ''dense.weight'' = Inr (T2 [[1051, 1052], [1053, 1054]])"
proof -
  let ?run = "load_model_from_source ex_rp ex_same_store ex_same_target ex_same_source False"
  have n: "num_hidden_layers (model_config ex_same_target) = 1" by code_simp
  have h1: "model_config ex_same_source = model_config ex_same_target" by code_simp
  have h2: "\<not> from_model_dict_hetero (model_config ex_same_target)" by code_simp
  have h3: "config_complete (model_config ex_same_target)" by code_simp
  have h4: "0 < total_entries ex_same_target" by code_simp
  have h5: "alike ex_same_store ex_same_target ex_same_source (loaded_parts 1)" by code_simp
  have h6: "list_all (\<lambda>p. apart (part_addrs ex_same_target (Output 0))
                             (part_addrs ex_same_target p)) (loaded_parts 1)"
    by code_simp
  have e: "entries_of ex_same_source (loaded_parts 1) = 21" by code_simp
  have t: "total_entries ex_same_target = 25" by code_simp
  have a: "Attention 0 \<in> set (loaded_parts 1)" by code_simp
  have before: "param ex_same_store ex_same_target (Output 0) ''dense.weight''
      = Inr (T2 [[1051, 1052], [1053, 1054]])" by code_simp
  from identical_homogeneous_transfer[OF h1 h2 h3 h4, of ex_same_store ex_rp False] h5 h6
  obtain st where run: "?run = Inr (st, 21 / 25)"
    and self: "self st = ex_same_target"
    and loaded: "\<And>p name. p \<in> set (loaded_parts 1) \<Longrightarrow>
          param (store st) ex_same_target p name = param ex_same_store ex_same_source p name"
    and kept: "\<And>name. param (store st) ex_same_target (Output 0) name
          = param ex_same_store ex_same_target (Output 0) name"
    unfolding n e t by auto
  have r: "returned_ratio ?run = Inr (21 / 25)"
    by (simp add: run returned_ratio_def then_do_def)
  have q: "param_after ?run (Attention 0) ''self.query.weight''
      = param ex_same_store ex_same_source (Attention 0) ''self.query.weight''"
    using loaded[OF a] by (simp add: run self param_after_def then_do_def)
  have o: "param_after ?run (Output 0) ''dense.weight'' = Inr (T2 [[1051, 1052], [1053, 1054]])"
    using kept before by (simp add: run self param_after_def then_do_def)
  show ?thesis using h1 h2 h3 h4 n h5 h6 r q o by blast
qed


end
